theory Spec2Isabelle
  imports Complex_Main "HOL-Library.AList" "HOL-Library.Word"
begin

unbundle bit_operations_syntax

section \<open>Conventions\<close>

text \<open>
  A shallow embedding of the x402 library for Cronos (TypeScript). JavaScript strings are
  modelled as \<open>string\<close> (a list of characters, one per code unit), a \<open>bigint\<close> and a
  \<open>number\<close> that holds an integer (a chain id, a time, a block number) as \<open>int\<close>, the
  shares of a split, which the codec adds as the numbers the caller gave, as doubles
  (the type \<open>number\<close> below), an optional field as an \<open>option\<close>, a thrown exception as
  the \<open>Inl\<close> branch of a sum. A call that leaves the
  process (a ledger read, a transaction) is a function of the environment handed to the
  model, and every function that can make such calls also returns the list of the calls
  it made, in order.
\<close>

subsection \<open>Errors (src/errors/index.ts)\<close>

text \<open>
  The error classes, with the fields their constructors store. \<open>Error\<close> is the plain
  JavaScript error with its message; \<open>NonError\<close> stands for a thrown value that is not an
  instance of \<open>Error\<close>.
\<close>

datatype error =
    Error string
  | ContractNotFoundError string
  | SignatureError string "string option"
  | TransactionError string "string option" "string option"
  | NetworkError string "string option" "int option"
  | ConfigurationError string "string list option"
  | NonError

text \<open>What a failing library or ledger call throws: an \<open>Error\<close> with a message, or
  some other value.\<close>

datatype thrown = ErrorMsg string | NotAnError

subsection \<open>Strings\<close>

definition startsWith :: "string \<Rightarrow> string \<Rightarrow> bool" where
  "startsWith s p = (take (length p) s = p)"

text \<open>\<open>s.includes(p)\<close>: \<open>p\<close> occurs in \<open>s\<close> as a contiguous substring.\<close>

fun includes_str :: "string \<Rightarrow> string \<Rightarrow> bool" where
  "includes_str [] p = (p = [])"
| "includes_str (c # cs) p = (startsWith (c # cs) p \<or> includes_str cs p)"

definition isHexDigit :: "char \<Rightarrow> bool" where
  "isHexDigit c = (c \<in> set ''0123456789abcdefABCDEF'')"

definition isDigit :: "char \<Rightarrow> bool" where
  "isDigit c = (c \<in> set ''0123456789'')"

subsection \<open>Numbers\<close>

text \<open>
  A JavaScript number is a double: a finite value, an infinity or NaN. A finite value is
  kept as the rational it denotes (the doubles are the multiples of a power of two that
  53 bits and the exponent range allow). The sign of zero is left out: a sum that starts
  at 0 is never the negative zero, and adding either zero changes nothing.
\<close>

datatype number = Finite rat | PosInfinity | NegInfinity | NaN

text \<open>The binary exponent of a positive value \<open>x\<close>, the integer part of its logarithm
  to base 2: the number of halvings that bring \<open>x\<close> below 2, or, for \<open>x\<close> below 1, the
  number of doublings that bring it to 1 or more, negated.\<close>

function halvings :: "rat \<Rightarrow> nat" where
  "halvings x = (if 2 \<le> x then Suc (halvings (x / 2)) else 0)"
  by pat_completeness auto
termination
proof (relation "measure (\<lambda>x. nat \<lfloor>x\<rfloor>)")
  show "wf (measure (\<lambda>x::rat. nat \<lfloor>x\<rfloor>))" by simp
next
  fix x :: rat
  assume "2 \<le> x"
  then have "x / 2 \<le> x - 1" by simp
  then have "\<lfloor>x / 2\<rfloor> \<le> \<lfloor>x - 1\<rfloor>" by (rule floor_mono)
  moreover have "2 \<le> \<lfloor>x\<rfloor>" using \<open>2 \<le> x\<close> by (simp add: le_floor_iff)
  ultimately show "(x / 2, x) \<in> measure (\<lambda>x. nat \<lfloor>x\<rfloor>)" by simp
qed

function doublings :: "rat \<Rightarrow> nat" where
  "doublings x = (if 0 < x \<and> x < 1 then Suc (doublings (2 * x)) else 0)"
  by pat_completeness auto
termination
proof (relation "measure (\<lambda>x. nat \<lfloor>1 / x\<rfloor>)")
  show "wf (measure (\<lambda>x::rat. nat \<lfloor>1 / x\<rfloor>))" by simp
next
  fix x :: rat
  assume a: "0 < x \<and> x < 1"
  then have one: "1 \<le> 1 / x" by simp
  then have f: "1 \<le> \<lfloor>1 / x\<rfloor>" by (simp add: le_floor_iff)
  have h: "1 / (2 * x) = (1 / x) / 2" by simp
  have lt: "\<lfloor>(1 / x) / 2\<rfloor> < \<lfloor>1 / x\<rfloor>"
  proof (cases "2 \<le> 1 / x")
    case True
    then have "(1 / x) / 2 \<le> 1 / x - 1" by simp
    then have "\<lfloor>(1 / x) / 2\<rfloor> \<le> \<lfloor>1 / x - 1\<rfloor>" by (rule floor_mono)
    then show ?thesis by simp
  next
    case False
    then have "(1 / x) / 2 < 1" by simp
    then have "\<lfloor>(1 / x) / 2\<rfloor> < 1" by (simp add: floor_less_iff)
    with f show ?thesis by linarith
  qed
  have "nat \<lfloor>1 / (2 * x)\<rfloor> < nat \<lfloor>1 / x\<rfloor>"
    unfolding h using lt f by linarith
  then show "(2 * x, x) \<in> measure (\<lambda>x. nat \<lfloor>1 / x\<rfloor>)" by simp
qed

declare halvings.simps [simp del] doublings.simps [simp del]

definition pow2 :: "int \<Rightarrow> rat" where
  "pow2 e = (if 0 \<le> e then 2 ^ nat e else 1 / 2 ^ nat (- e))"

text \<open>The nearest integer, the even one of the two when they are equally near.\<close>

definition roundHalfEven :: "rat \<Rightarrow> int" where
  "roundHalfEven m =
     (let f = \<lfloor>m\<rfloor>; d = m - of_int f
      in if d < 1 / 2 then f else if 1 / 2 < d then f + 1 else if even f then f else f + 1)"

text \<open>
  The double nearest to an exact value. The step between neighbouring doubles at \<open>x\<close> is
  2 to the exponent of \<open>x\<close> less 52, the exponent taken as -1022 at least (below that the
  doubles are evenly spaced); \<open>x\<close> is rounded to a multiple of the step, and a result of
  magnitude 2 to the 1024 or more is the infinity of its sign.
\<close>

definition roundDouble :: "rat \<Rightarrow> number" where
  "roundDouble x =
     (if x = 0 then Finite 0
      else
        (let e = max (int (halvings \<bar>x\<bar>) - int (doublings \<bar>x\<bar>)) (- 1022) - 52;
             y = of_int (roundHalfEven (x / pow2 e)) * pow2 e
         in if 2 ^ 1024 \<le> \<bar>y\<bar> then (if 0 < x then PosInfinity else NegInfinity)
            else Finite y))"

text \<open>The operator \<open>+\<close> on two numbers.\<close>

fun jsAdd :: "number \<Rightarrow> number \<Rightarrow> number" where
  "jsAdd (Finite a) (Finite b) = roundDouble (a + b)"
| "jsAdd NaN b = NaN"
| "jsAdd a NaN = NaN"
| "jsAdd PosInfinity NegInfinity = NaN"
| "jsAdd NegInfinity PosInfinity = NaN"
| "jsAdd PosInfinity b = PosInfinity"
| "jsAdd a PosInfinity = PosInfinity"
| "jsAdd NegInfinity b = NegInfinity"
| "jsAdd a NegInfinity = NegInfinity"

text \<open>\<open>Number.isInteger\<close>.\<close>

definition isInteger :: "number \<Rightarrow> bool" where
  "isInteger v = (case v of Finite r \<Rightarrow> r = of_int \<lfloor>r\<rfloor> | _ \<Rightarrow> False)"

subsection \<open>Ledger calls\<close>

text \<open>The calls that leave the process, as they are recorded.\<close>

datatype ledger_call =
    SettleAndExecute string string string int int int string string string string int string string
  | GetSettlementRouter string
  | CalculateCommitment string
  | GetTokenInfo string

section \<open>The ethers library\<close>

text \<open>
  The source calls the ethers library (version 6) for addresses, for the ABI coder and
  for decimal amounts. The library is not part of the repository; the functions the
  source uses are modelled here after the library's own definitions, so that the
  functions of the repository can be evaluated.
\<close>

subsection \<open>Hexadecimal\<close>

text \<open>The value of a hex digit of either case (0 for any other character).\<close>

definition hexDigitValue :: "char \<Rightarrow> nat" where
  "hexDigitValue c =
     (case map_of (zip ''0123456789abcdefABCDEF''
                     [0, 1, 2, 3, 4, 5, 6, 7, 8, 9, 10, 11, 12, 13, 14, 15, 10, 11, 12, 13, 14, 15]) c of
        Some n \<Rightarrow> n
      | None \<Rightarrow> 0)"

definition hexToNat :: "string \<Rightarrow> nat" where
  "hexToNat s = foldl (\<lambda>acc c. 16 * acc + hexDigitValue c) 0 s"

definition hexDigit :: "nat \<Rightarrow> char" where
  "hexDigit n = ''0123456789abcdef'' ! (n mod 16)"

text \<open>\<open>natToHex k n\<close>: the \<open>k\<close> lowest hex digits of \<open>n\<close>, lower case, most
  significant first.\<close>

fun natToHex :: "nat \<Rightarrow> nat \<Rightarrow> string" where
  "natToHex 0 n = []"
| "natToHex (Suc k) n = natToHex k (n div 16) @ [hexDigit n]"

text \<open>The case of a letter; strings here are ASCII.\<close>

definition toLowerChar :: "char \<Rightarrow> char" where
  "toLowerChar c =
     (case map_of (zip ''ABCDEFGHIJKLMNOPQRSTUVWXYZ'' ''abcdefghijklmnopqrstuvwxyz'') c of
        Some l \<Rightarrow> l
      | None \<Rightarrow> c)"

definition toUpperChar :: "char \<Rightarrow> char" where
  "toUpperChar c =
     (case map_of (zip ''abcdefghijklmnopqrstuvwxyz'' ''ABCDEFGHIJKLMNOPQRSTUVWXYZ'') c of
        Some u \<Rightarrow> u
      | None \<Rightarrow> c)"

definition toLowerCase :: "string \<Rightarrow> string" where
  "toLowerCase s = map toLowerChar s"

definition toUpperCase :: "string \<Rightarrow> string" where
  "toUpperCase s = map toUpperChar s"

subsection \<open>Keccak-256\<close>

text \<open>
  The hash behind the address checksum: the Keccak-f[1600] permutation on 25 lanes of 64
  bits (lane \<open>(x, y)\<close> at index \<open>x + 5 * y\<close>), rate 136 bytes, the original Keccak
  padding, 32 bytes of output.
\<close>

type_synonym lane = "64 word"

definition rotl :: "nat \<Rightarrow> lane \<Rightarrow> lane" where
  "rotl n w = push_bit n w OR drop_bit (64 - n) w"

definition rotationOffsets :: "nat list" where
  "rotationOffsets =
     [0, 1, 62, 28, 27, 36, 44, 6, 55, 20, 3, 10, 43, 25, 39, 41, 45, 15, 21, 8, 18, 2, 61,
      56, 14]"

definition roundConstants :: "lane list" where
  "roundConstants =
     [0x0000000000000001, 0x0000000000008082, 0x800000000000808A, 0x8000000080008000,
      0x000000000000808B, 0x0000000080000001, 0x8000000080008081, 0x8000000000008009,
      0x000000000000008A, 0x0000000000000088, 0x0000000080008009, 0x000000008000000A,
      0x000000008000808B, 0x800000000000008B, 0x8000000000008089, 0x8000000000008003,
      0x8000000000008002, 0x8000000000000080, 0x000000000000800A, 0x800000008000000A,
      0x8000000080008081, 0x8000000000008080, 0x0000000080000001, 0x8000000080008008]"

definition laneIndices :: "nat list" where
  "laneIndices =
     [0, 1, 2, 3, 4, 5, 6, 7, 8, 9, 10, 11, 12, 13, 14, 15, 16, 17, 18, 19, 20, 21, 22, 23,
      24]"

definition theta :: "lane list \<Rightarrow> lane list" where
  "theta a =
     (let c = map (\<lambda>x. a ! x XOR a ! (x + 5) XOR a ! (x + 10) XOR a ! (x + 15) XOR a ! (x + 20))
                [0, 1, 2, 3, 4];
          d = map (\<lambda>x. c ! ((x + 4) mod 5) XOR rotl 1 (c ! ((x + 1) mod 5))) [0, 1, 2, 3, 4]
      in map (\<lambda>i. a ! i XOR d ! (i mod 5)) laneIndices)"

definition rhoPi :: "lane list \<Rightarrow> lane list" where
  "rhoPi a =
     map (\<lambda>j. let src = (j mod 5 + 3 * (j div 5)) mod 5 + 5 * (j mod 5)
              in rotl (rotationOffsets ! src) (a ! src)) laneIndices"

definition chi :: "lane list \<Rightarrow> lane list" where
  "chi b =
     map (\<lambda>i. let x = i mod 5; y = i div 5
              in b ! i XOR (NOT (b ! ((x + 1) mod 5 + 5 * y)) AND b ! ((x + 2) mod 5 + 5 * y)))
       laneIndices"

definition iota :: "lane \<Rightarrow> lane list \<Rightarrow> lane list" where
  "iota rc a = (a ! 0 XOR rc) # tl a"

definition keccakRound :: "lane list \<Rightarrow> lane \<Rightarrow> lane list" where
  "keccakRound a rc = iota rc (chi (rhoPi (theta a)))"

definition keccakF :: "lane list \<Rightarrow> lane list" where
  "keccakF a = foldl keccakRound a roundConstants"

fun laneOfBytes :: "nat list \<Rightarrow> lane" where
  "laneOfBytes [] = 0"
| "laneOfBytes (b # bs) = word_of_nat b OR push_bit 8 (laneOfBytes bs)"

definition bytesOfLane :: "lane \<Rightarrow> nat list" where
  "bytesOfLane w = map (\<lambda>i. unat (drop_bit (8 * i) w AND 0xFF)) [0, 1, 2, 3, 4, 5, 6, 7]"

fun chunks :: "nat \<Rightarrow> nat \<Rightarrow> 'a list \<Rightarrow> 'a list list" where
  "chunks 0 n xs = []"
| "chunks (Suc k) n xs = take n xs # chunks k n (drop n xs)"

definition pad :: "nat list \<Rightarrow> nat list" where
  "pad m =
     (let q = 136 - length m mod 136
      in if q = 1 then m @ [0x81] else m @ [0x01] @ replicate (q - 2) 0 @ [0x80])"

definition absorbBlock :: "lane list \<Rightarrow> nat list \<Rightarrow> lane list" where
  "absorbBlock st block =
     keccakF (map2 (XOR) st (map laneOfBytes (chunks 17 8 block) @ replicate 8 0))"

definition keccak256 :: "nat list \<Rightarrow> nat list" where
  "keccak256 m =
     (let p = pad m;
          st = foldl absorbBlock (replicate 25 0) (chunks (length p div 136) 136 p)
      in concat (map bytesOfLane (take 4 st)))"

subsection \<open>Addresses\<close>

text \<open>
  \<open>getChecksumAddress\<close>: the address in lower case, each of its 40 hex characters turned
  to upper case when the matching nibble of the hash of the 40 characters is 8 or more.
  The library calls it on \<open>0x\<close> followed by at least 40 characters.
\<close>

definition getChecksumAddress :: "string \<Rightarrow> string" where
  "getChecksumAddress address =
     (let chars = drop 2 (toLowerCase address);
          hashed = keccak256 (map of_char (take 40 chars));
          nibbles = concat (map (\<lambda>b. [b div 16, b mod 16]) hashed)
      in ''0x'' @ map2 (\<lambda>c n. if n \<ge> 8 then toUpperChar c else c) (take 40 chars) (take 40 nibbles)
           @ drop 40 chars)"

text \<open>The two shapes \<open>getAddress\<close> accepts: \<open>/^(0x)?[0-9a-fA-F]{40}$/\<close> and the ICAP
  shape \<open>/^XE[0-9]{2}[0-9A-Za-z]{30,31}$/\<close>; and the test for mixed case,
  \<open>/([A-F].*[a-f])|([a-f].*[A-F])/\<close>.\<close>

definition isHexAddressShape :: "string \<Rightarrow> bool" where
  "isHexAddressShape s =
     (let body = (if startsWith s ''0x'' then drop 2 s else s)
      in length body = 40 \<and> list_all isHexDigit body)"

definition isAlnum :: "char \<Rightarrow> bool" where
  "isAlnum c =
     (c \<in> set ''0123456789ABCDEFGHIJKLMNOPQRSTUVWXYZabcdefghijklmnopqrstuvwxyz'')"

definition isIcapShape :: "string \<Rightarrow> bool" where
  "isIcapShape s =
     (startsWith s ''XE'' \<and> (length s = 34 \<or> length s = 35) \<and>
      list_all isDigit (take 2 (drop 2 s)) \<and> list_all isAlnum (drop 4 s))"

definition isMixedCase :: "string \<Rightarrow> bool" where
  "isMixedCase s =
     ((\<exists>c \<in> set s. c \<in> set ''ABCDEF'') \<and> (\<exists>c \<in> set s. c \<in> set ''abcdef''))"

text \<open>The value of a character as a base-36 digit, for digits and letters of either
  case.\<close>

definition base36Value :: "char \<Rightarrow> nat" where
  "base36Value c =
     (case map_of (zip ''0123456789abcdefghijklmnopqrstuvwxyz''
                     [0, 1, 2, 3, 4, 5, 6, 7, 8, 9, 10, 11, 12, 13, 14, 15, 16, 17, 18, 19, 20,
                      21, 22, 23, 24, 25, 26, 27, 28, 29, 30, 31, 32, 33, 34, 35])
             (toLowerChar c) of
        Some n \<Rightarrow> n
      | None \<Rightarrow> 0)"

definition fromBase36 :: "string \<Rightarrow> nat" where
  "fromBase36 s = foldl (\<lambda>acc c. 36 * acc + base36Value c) 0 s"

text \<open>A natural number in decimal, as \<open>String\<close> writes it.\<close>

definition decimalDigit :: "nat \<Rightarrow> char" where
  "decimalDigit n = ''0123456789'' ! (n mod 10)"

function natToString :: "nat \<Rightarrow> string" where
  "natToString n =
     (if n < 10 then [decimalDigit n] else natToString (n div 10) @ [decimalDigit n])"
  by pat_completeness auto
termination
  by (relation "measure id") auto

declare natToString.simps [simp del]

definition decimalDigitValue :: "char \<Rightarrow> nat" where
  "decimalDigitValue c =
     (case map_of (zip ''0123456789'' [0, 1, 2, 3, 4, 5, 6, 7, 8, 9]) c of
        Some n \<Rightarrow> n
      | None \<Rightarrow> 0)"

definition decimalToNat :: "string \<Rightarrow> nat" where
  "decimalToNat s = foldl (\<lambda>acc c. 10 * acc + decimalDigitValue c) 0 s"

text \<open>\<open>ibanChecksum\<close>: the characters after the first four, then the first two, then
  \<open>00\<close>, each character written as its base-36 value in decimal; the check digits are
  98 less the remainder of that decimal number by 97. (The library takes the remainder
  block by block; the result is the remainder of the whole number.)\<close>

definition ibanChecksum :: "string \<Rightarrow> string" where
  "ibanChecksum address =
     (let a = toUpperCase address;
          b = drop 4 a @ take 2 a @ ''00'';
          expanded = concat (map (\<lambda>c. natToString (base36Value c)) b);
          checksum = natToString (98 - decimalToNat expanded mod 97)
      in if length checksum < 2 then ''0'' @ checksum else checksum)"

text \<open>Hex digits of a number without leading zeros, as \<open>toString(16)\<close> writes them
  (\<open>0\<close> for zero).\<close>

function natToHexString :: "nat \<Rightarrow> string" where
  "natToHexString n =
     (if n < 16 then [hexDigit n] else natToHexString (n div 16) @ [hexDigit n])"
  by pat_completeness auto
termination
  by (relation "measure id") auto

declare natToHexString.simps [simp del]

definition getAddress :: "string \<Rightarrow> string option" where
  "getAddress address =
     (if isHexAddressShape address then
        (let prefixed = (if startsWith address ''0x'' then address else ''0x'' @ address);
             result = getChecksumAddress prefixed
         in if \<not> isMixedCase prefixed \<or> result = prefixed then Some result else None)
      else if isIcapShape address then
        (if take 2 (drop 2 address) = ibanChecksum address then
           (let h = natToHexString (fromBase36 (drop 4 address))
            in Some (getChecksumAddress (''0x'' @ replicate (40 - length h) CHR ''0'' @ h)))
         else None)
      else None)"

definition isAddress :: "string \<Rightarrow> bool" where
  "isAddress v = (getAddress v \<noteq> None)"

subsection \<open>The ABI coder, for the two types the codec uses\<close>

text \<open>
  A payload is kept in its hex text, two characters a byte. A word is 32 bytes, big
  endian. The library's errors are the plain \<open>Error\<close> here, with its message cut
  short.
\<close>

definition wordHex :: "nat \<Rightarrow> string" where
  "wordHex n = natToHex 64 n"

text \<open>\<open>getBytes\<close>: the text must match \<open>/^0x([0-9a-f][0-9a-f])*$/i\<close>; the result is
  the text after the prefix.\<close>

definition getBytes :: "string \<Rightarrow> string option" where
  "getBytes v =
     (if (startsWith v ''0x'' \<or> startsWith v ''0X'') \<and> even (length v) \<and>
         list_all isHexDigit (drop 2 v)
      then Some (drop 2 v) else None)"

text \<open>The reader: the word at the head of the data, if 32 bytes are left.\<close>

definition readValue :: "string \<Rightarrow> nat option" where
  "readValue d = (if length d < 64 then None else Some (hexToNat (take 64 d)))"

text \<open>\<open>readIndex\<close>: a word read as a JavaScript number, which must be a safe
  integer.\<close>

definition readIndex :: "string \<Rightarrow> nat option" where
  "readIndex d =
     (case readValue d of
        None \<Rightarrow> None
      | Some n \<Rightarrow> if n > 9007199254740991 then None else Some n)"

text \<open>The address coder. Writing: the address must pass \<open>getAddress\<close>, and its value
  is written as a word. Reading: a word of more than 20 bytes is refused, a word of 20
  bytes is written as 40 hex digits and put through \<open>getAddress\<close>.\<close>

definition encodeAddress :: "string \<Rightarrow> string option" where
  "encodeAddress a =
     (case getAddress a of
        None \<Rightarrow> None
      | Some r \<Rightarrow> Some (wordHex (hexToNat (drop 2 r))))"

definition decodeAddress :: "nat \<Rightarrow> string option" where
  "decodeAddress w =
     (if w \<ge> 2 ^ 160 then None else getAddress (''0x'' @ natToHex 40 w))"

text \<open>The number coder for \<open>uint16\<close>. Writing takes a number through \<open>getBigInt\<close>,
  which refuses one that is not an integer or not a safe integer, and then refuses a
  value out of the range of the type; reading keeps the low 16 bits of the word, a
  \<open>bigint\<close>, which the codec turns into a number with \<open>Number\<close>.\<close>

definition encodeUint16 :: "number \<Rightarrow> string option" where
  "encodeUint16 v =
     (case v of
        Finite r \<Rightarrow>
          if \<not> isInteger v \<or> r < - 9007199254740991 \<or> r > 9007199254740991 then None
          else if r < 0 \<or> r > 65535 then None
          else Some (wordHex (nat \<lfloor>r\<rfloor>))
      | _ \<Rightarrow> None)"

definition decodeUint16 :: "nat \<Rightarrow> number" where
  "decodeUint16 w = Finite (of_nat (w mod 65536))"

text \<open>\<open>encode(['tuple(address)'], [[a]])\<close> and its \<open>decode\<close>, which returns the
  address at \<open>decoded[0][0]\<close>.\<close>

definition abiEncodeAddressTuple :: "string \<Rightarrow> error + string" where
  "abiEncodeAddressTuple a =
     (case encodeAddress a of
        None \<Rightarrow> Inl (Error ''invalid address'')
      | Some w \<Rightarrow> Inr (''0x'' @ w))"

definition abiDecodeAddressTuple :: "string \<Rightarrow> error + string" where
  "abiDecodeAddressTuple v =
     (case getBytes v of
        None \<Rightarrow> Inl (Error ''invalid BytesLike value'')
      | Some d \<Rightarrow>
          (case readValue d of
             None \<Rightarrow> Inl (Error ''data out-of-bounds'')
           | Some w \<Rightarrow>
               (case decodeAddress w of
                  None \<Rightarrow> Inl (Error ''value exceeds width'')
                | Some a \<Rightarrow> Inr a)))"

record split =
  recipient :: string
  bips :: number

definition encodeSplit :: "split \<Rightarrow> string option" where
  "encodeSplit s =
     (case encodeAddress (recipient s) of
        None \<Rightarrow> None
      | Some a \<Rightarrow>
          (case encodeUint16 (bips s) of
             None \<Rightarrow> None
           | Some b \<Rightarrow> Some (a @ b)))"

fun encodeSplits :: "split list \<Rightarrow> string option" where
  "encodeSplits [] = Some []"
| "encodeSplits (s # ss) =
     (case encodeSplit s of
        None \<Rightarrow> None
      | Some e \<Rightarrow> (case encodeSplits ss of None \<Rightarrow> None | Some es \<Rightarrow> Some (e @ es)))"

text \<open>\<open>encode(['tuple(address recipient, uint16 bips)[]'], [splits])\<close>: the offset of
  the array (32), its length, then two words for each element.\<close>

definition abiEncodeSplits :: "split list \<Rightarrow> error + string" where
  "abiEncodeSplits ss =
     (case encodeSplits ss of
        None \<Rightarrow> Inl (Error ''invalid address or value out-of-bounds'')
      | Some es \<Rightarrow> Inr (''0x'' @ wordHex 32 @ wordHex (length ss) @ es))"

text \<open>Reading \<open>count\<close> elements of two words each from the data.\<close>

fun decodeSplits :: "nat \<Rightarrow> string \<Rightarrow> split list option" where
  "decodeSplits 0 d = Some []"
| "decodeSplits (Suc n) d =
     (case readValue d of
        None \<Rightarrow> None
      | Some a \<Rightarrow>
          (case readValue (drop 64 d) of
             None \<Rightarrow> None
           | Some b \<Rightarrow>
               (case decodeAddress a of
                  None \<Rightarrow> None
                | Some r \<Rightarrow>
                    (case decodeSplits n (drop 128 d) of
                       None \<Rightarrow> None
                     | Some ss \<Rightarrow> Some (\<lparr>recipient = r, bips = decodeUint16 b\<rparr> # ss)))))"

text \<open>The \<open>decode\<close> of the array type: the offset, the data from the offset on, the
  count, the check that the data left has 32 bytes for each element counted, the
  elements.\<close>

definition abiDecodeSplits :: "string \<Rightarrow> error + split list" where
  "abiDecodeSplits v =
     (case getBytes v of
        None \<Rightarrow> Inl (Error ''invalid BytesLike value'')
      | Some d \<Rightarrow>
          (case readIndex d of
             None \<Rightarrow> Inl (Error ''data out-of-bounds'')
           | Some off \<Rightarrow>
               (let sub = drop (2 * off) d in
                case readIndex sub of
                  None \<Rightarrow> Inl (Error ''data out-of-bounds'')
                | Some count \<Rightarrow>
                    if count * 32 > length sub div 2 then Inl (Error ''insufficient data length'')
                    else
                      (case decodeSplits count (drop 64 sub) of
                         None \<Rightarrow> Inl (Error ''data out-of-bounds'')
                       | Some ss \<Rightarrow> Inr ss))))"

subsection \<open>Decimal amounts\<close>

text \<open>
  \<open>parseUnits(value, decimals)\<close>, which is \<open>FixedNumber.fromString\<close> with a width of 512
  bits. The text must match \<open>/^(-?)([0-9]*)\.?([0-9]*)$/\<close> with a digit in it. The
  fraction is filled with zeros to \<open>decimals\<close> digits; digits beyond must all be zeros.
  The value is the sign, the whole part and the fraction read as one integer, which must
  fit 512 bits signed.
\<close>

definition fitsSigned512 :: "int \<Rightarrow> bool" where
  "fitsSigned512 x = (x \<ge> - (2 ^ 511) \<and> x < 2 ^ 511)"

definition parseUnits :: "string \<Rightarrow> nat \<Rightarrow> error + int" where
  "parseUnits v decimals =
     (let negative = startsWith v ''-'';
          r0 = (if negative then drop 1 v else v);
          whole = takeWhile isDigit r0;
          r1 = dropWhile isDigit r0;
          r2 = (if startsWith r1 ''.'' then drop 1 r1 else r1);
          decimal = takeWhile isDigit r2;
          r3 = dropWhile isDigit r2
      in if r3 \<noteq> [] \<or> length whole + length decimal = 0 then
           Inl (Error ''invalid FixedNumber string value'')
         else if \<not> list_all (\<lambda>c. c = CHR ''0'') (drop decimals decimal) then
           Inl (Error ''too many decimals for format'')
         else
           (let digits = whole @ take decimals (decimal @ replicate (decimals - length decimal) CHR ''0'');
                magnitude = int (decimalToNat digits);
                val = (if negative then - magnitude else magnitude)
            in if fitsSigned512 val then Inr val
               else Inl (Error ''overflow'')))"

text \<open>The number that a sign, a whole part and a fraction denote at \<open>d\<close> fractional
  digits.\<close>

definition fixedValue :: "bool \<Rightarrow> string \<Rightarrow> string \<Rightarrow> nat \<Rightarrow> int" where
  "fixedValue negative w f d =
     (let m = int (decimalToNat (w @ take d (f @ replicate (d - length f) CHR ''0'')))
      in if negative then - m else m)"

subsection \<open>Contract calls\<close>

text \<open>
  What calling \<open>settlementRouter()\<close> on a \<open>Contract\<close> built at an address gives. At an
  address without code the node answers the call with empty data and no error; the
  library finds no address to decode in it and throws its BAD_DATA error, with the
  message that \<open>makeError\<close> composes, the version of the library at its end. Any other
  failure (a call that the contract reverts, which is the library's CALL_EXCEPTION error,
  or a failure of the transport) is kept as what is thrown.
\<close>

datatype account = NoCode | HookContract string | Failing thrown

definition badDataMessage :: "string \<Rightarrow> string" where
  \<open>badDataMessage version =
     ''could not decode result data (value="0x", info={ "method": "settlementRouter", "signature": "settlementRouter()" }, code=BAD_DATA, version=''
       @ version @ '')''\<close>

definition callSettlementRouter :: "string \<Rightarrow> (string \<Rightarrow> account) \<Rightarrow> string \<Rightarrow> thrown + string" where
  "callSettlementRouter version chain a =
     (case chain a of
        HookContract router \<Rightarrow> Inr router
      | NoCode \<Rightarrow> Inl (ErrorMsg (badDataMessage version))
      | Failing t \<Rightarrow> Inl t)"

section \<open>Hook data codec (shared/hook-data-codec.ts)\<close>

datatype HookType = NftMint | RewardPoints | TransferSplit

text \<open>The union \<open>HookDataParams\<close>: the tag is the constructor. \<open>splits\<close> is optional;
  \<open>Some []\<close> is the empty array.\<close>

datatype HookDataParams =
    NFTMintHookData string
  | RewardPointsHookData string
  | TransferSplitHookData "split list option"

text \<open>
  \<open>encode\<close>. The cast \<open>params as NFTMintHookData\<close> checks nothing: with parameters of
  another variant the field read is undefined, which the address coder refuses; the
  \<open>transfer-split\<close> branch then finds no \<open>splits\<close> and returns the empty payload.
\<close>

definition encode :: "HookType \<Rightarrow> HookDataParams \<Rightarrow> error + string" where
  "encode hookType params =
     (case hookType of
        NftMint \<Rightarrow>
          (case params of
             NFTMintHookData nftContract \<Rightarrow> abiEncodeAddressTuple nftContract
           | _ \<Rightarrow> Inl (Error ''invalid address''))
      | RewardPoints \<Rightarrow>
          (case params of
             RewardPointsHookData rewardToken \<Rightarrow> abiEncodeAddressTuple rewardToken
           | _ \<Rightarrow> Inl (Error ''invalid address''))
      | TransferSplit \<Rightarrow>
          (case params of
             TransferSplitHookData (Some ss) \<Rightarrow>
               if length ss = 0 then Inr ''0x'' else abiEncodeSplits ss
           | _ \<Rightarrow> Inr ''0x''))"

definition decode :: "HookType \<Rightarrow> string \<Rightarrow> error + HookDataParams" where
  "decode hookType hookData =
     (case hookType of
        NftMint \<Rightarrow>
          if hookData = ''0x'' \<or> hookData = [] then
            Inl (Error ''NFT mint hookData cannot be empty'')
          else
            (case abiDecodeAddressTuple hookData of
               Inl e \<Rightarrow> Inl e
             | Inr a \<Rightarrow> Inr (NFTMintHookData a))
      | RewardPoints \<Rightarrow>
          if hookData = ''0x'' \<or> hookData = [] then
            Inl (Error ''Reward points hookData cannot be empty'')
          else
            (case abiDecodeAddressTuple hookData of
               Inl e \<Rightarrow> Inl e
             | Inr a \<Rightarrow> Inr (RewardPointsHookData a))
      | TransferSplit \<Rightarrow>
          if hookData = ''0x'' \<or> hookData = [] then Inr (TransferSplitHookData None)
          else
            (case abiDecodeSplits hookData of
               Inl e \<Rightarrow> Inl e
             | Inr ss \<Rightarrow> Inr (TransferSplitHookData (Some ss))))"

record HookDataSchema =
  schema_hookType :: HookType
  abiType :: string
  schema_description :: string
  example :: string

definition getSchema :: "HookType \<Rightarrow> HookDataSchema" where
  \<open>getSchema hookType =
     (case hookType of
        NftMint \<Rightarrow>
          \<lparr>schema_hookType = NftMint, abiType = ''tuple(address)'',
           schema_description = ''NFT contract address to mint from'',
           example = ''{ "nftContract": "0x..." }''\<rparr>
      | RewardPoints \<Rightarrow>
          \<lparr>schema_hookType = RewardPoints, abiType = ''tuple(address)'',
           schema_description = ''Reward token contract address'',
           example = ''{ "rewardToken": "0x..." }''\<rparr>
      | TransferSplit \<Rightarrow>
          \<lparr>schema_hookType = TransferSplit,
           abiType = ''tuple(address recipient, uint16 bips)[]'',
           schema_description =
             ''Array of split recipients with basis points (10000 = 100%). Empty for simple transfer.'',
           example =
             ''{ "splits": [{ "recipient": "0x...", "bips": 5000 }, { "recipient": "0x...", "bips": 5000 }] }''\<rparr>)\<close>

text \<open>\<open>validate\<close>: \<open>every\<close> is \<open>list_all\<close>, \<open>reduce\<close> from 0 is \<open>foldl\<close>, the sum is the
  sum of two numbers, and \<open>===\<close> on numbers holds between equal values that are not
  NaN.\<close>

definition validate :: "HookDataParams \<Rightarrow> bool" where
  "validate params =
     (case params of
        NFTMintHookData nftContract \<Rightarrow> isAddress nftContract
      | RewardPointsHookData rewardToken \<Rightarrow> isAddress rewardToken
      | TransferSplitHookData splits \<Rightarrow>
          (case splits of
             None \<Rightarrow> True
           | Some ss \<Rightarrow>
               if length ss = 0 then True
               else
                 (let allValidAddresses = list_all (\<lambda>s. isAddress (recipient s)) ss;
                      totalBips = foldl (\<lambda>sum s. jsAdd sum (bips s)) (Finite 0) ss
                  in allValidAddresses \<and> totalBips = Finite 10000)))"

definition hookTypeOf :: "HookDataParams \<Rightarrow> HookType" where
  "hookTypeOf params =
     (case params of
        NFTMintHookData _ \<Rightarrow> NftMint
      | RewardPointsHookData _ \<Rightarrow> RewardPoints
      | TransferSplitHookData _ \<Rightarrow> TransferSplit)"

section \<open>Network registry (shared/network-config.ts)\<close>

record NetworkSettings =
  chainId :: int
  rpcUrl :: string
  usdcAddress :: string
  blockExplorer :: string

text \<open>\<open>NETWORK_CONFIGS\<close>, indexed by the network identifier; no entry for any other key.\<close>

definition NETWORK_CONFIGS :: "string \<Rightarrow> NetworkSettings option" where
  "NETWORK_CONFIGS network =
     (if network = ''cronos'' then
        Some \<lparr>chainId = 25,
              rpcUrl = ''https://evm.cronos.org'',
              usdcAddress = ''0xc21223249CA28397B4B6541dfFaEcC539BfF0c59'',
              blockExplorer = ''https://explorer.cronos.org''\<rparr>
      else if network = ''cronos-testnet'' then
        Some \<lparr>chainId = 338,
              rpcUrl = ''https://evm-t3.cronos.org'',
              usdcAddress = ''0xc01efAaF7C5C61bEbFAeb358E1161b537b8bC0e0'',
              blockExplorer = ''https://explorer.cronos.org/testnet''\<rparr>
      else None)"

text \<open>JavaScript truthiness of an optional string: absent and the empty string are
  falsy.\<close>

definition truthy :: "string option \<Rightarrow> bool" where
  "truthy v = (case v of None \<Rightarrow> False | Some s \<Rightarrow> s \<noteq> [])"

definition isValidNetwork :: "string \<Rightarrow> bool" where
  "isValidNetwork network = (network = ''cronos'' \<or> network = ''cronos-testnet'')"

definition getDefaultConfig :: "string \<Rightarrow> NetworkSettings option" where
  "getDefaultConfig network = NETWORK_CONFIGS network"

definition getConfig :: "string \<Rightarrow> string option \<Rightarrow> NetworkSettings option" where
  "getConfig network customRpcUrl =
     (case getDefaultConfig network of
        None \<Rightarrow> None
      | Some config \<Rightarrow>
          if truthy customRpcUrl then Some (config\<lparr>rpcUrl := the customRpcUrl\<rparr>)
          else Some config)"

section \<open>Ledger gateway (shared/contract-reader.ts)\<close>

text \<open>
  \<open>getSettlementRouter\<close>. The argument \<open>read\<close> is the ledger: what building the hook
  contract at an address and calling its \<open>settlementRouter()\<close> returns or throws. The
  \<open>catch\<close> block sorts what was thrown by its message.
\<close>

definition getSettlementRouter :: "(string \<Rightarrow> thrown + string) \<Rightarrow> string \<Rightarrow> error + string" where
  "getSettlementRouter read hookAddress =
     (case read hookAddress of
        Inr router \<Rightarrow> Inr router
      | Inl (ErrorMsg m) \<Rightarrow>
          if includes_str m ''call revert'' \<or> includes_str m ''CALL_EXCEPTION''
          then Inl (ContractNotFoundError hookAddress)
          else Inl (NetworkError (''Failed to read settlement router: '' @ m) None None)
      | Inl NotAnError \<Rightarrow> Inl NonError)"

section \<open>Service registry (server/server.ts)\<close>

record X402ServerConfig =
  server_name :: "string option"
  server_description :: "string option"
  server_url :: "string option"
  server_network :: "string option"
  server_rpcUrl :: "string option"

text \<open>
  The service configuration a caller hands to \<open>addService\<close>. The fields the source
  checks for presence are optional here: a JavaScript caller can leave them out. The
  functions below take the extensible record, so a caller's object may carry more fields
  than the interface declares, as a JavaScript object may.
\<close>

record X402ServiceConfig =
  service_id :: "string option"
  title :: string
  description :: "string option"
  hookType :: "HookType option"
  hookAddress :: "string option"
  network :: "string option"
  supportingContracts :: "(string option \<times> string option) option"
  defaults :: "(string \<times> string \<times> string) option"

record X402Service = X402ServiceConfig +
  settlementRouter :: string
  service_usdcAddress :: string
  service_chainId :: int

text \<open>The server object: its configuration, the \<open>services\<close> map in insertion order,
  and the resolved network settings. The contract reader is the ledger argument of
  \<open>addService\<close>.\<close>

record X402Server =
  config :: X402ServerConfig
  services :: "(string \<times> X402Service) list"
  networkSettings :: NetworkSettings

fun join :: "string \<Rightarrow> string list \<Rightarrow> string" where
  "join sep [] = []"
| "join sep [x] = x"
| "join sep (x # y # ys) = x @ sep @ join sep (y # ys)"

definition validateConfig :: "X402ServerConfig \<Rightarrow> error option" where
  "validateConfig c =
     (let missingFields =
            (if \<not> truthy (server_name c) then [''name''] else []) @
            (if \<not> truthy (server_url c) then [''url''] else []) @
            (if \<not> truthy (server_network c) then [''network''] else [])
      in if length missingFields > 0 then
           Some (ConfigurationError
                  (''Missing required configuration fields: '' @ join '', '' missingFields)
                  (Some missingFields))
         else if \<not> isValidNetwork (the (server_network c)) then
           Some (ConfigurationError
                  (''Invalid network: '' @ the (server_network c) @
                   ''. Must be 'cronos' or 'cronos-testnet'' @ [CHR 0x27]) None)
         else None)"

text \<open>The constructor (\<open>createX402Server\<close>): validation, then the network settings from
  the registry; the map of services starts empty.\<close>

definition createX402Server :: "X402ServerConfig \<Rightarrow> error + X402Server" where
  "createX402Server c =
     (case validateConfig c of
        Some e \<Rightarrow> Inl e
      | None \<Rightarrow>
          (case getConfig (the (server_network c)) (server_rpcUrl c) of
             None \<Rightarrow> Inl (Error ''unknown network'')
           | Some ns \<Rightarrow> Inr \<lparr>config = c, services = [], networkSettings = ns\<rparr>))"

definition missingServiceFields :: "'a X402ServiceConfig_scheme \<Rightarrow> string list" where
  "missingServiceFields serviceConfig =
     (if \<not> truthy (service_id serviceConfig) then [''id''] else []) @
     (if \<not> truthy (hookAddress serviceConfig) then [''hookAddress''] else []) @
     (if hookType serviceConfig = None then [''hookType''] else []) @
     (if \<not> truthy (network serviceConfig) then [''network''] else [])"

text \<open>
  The object \<open>{...serviceConfig, settlementRouter, usdcAddress, chainId}\<close>: the declared
  fields of the configuration, then the three resolved fields, which replace whatever the
  caller's object carried under those names.
\<close>

definition buildService ::
  "NetworkSettings \<Rightarrow> 'a X402ServiceConfig_scheme \<Rightarrow> string \<Rightarrow> X402Service" where
  "buildService ns serviceConfig router =
     X402ServiceConfig.extend (X402ServiceConfig.truncate serviceConfig)
       (X402Service.fields router (usdcAddress ns) (chainId ns))"

text \<open>
  \<open>addService\<close> returns its outcome, the server after the call and the ledger calls
  made. \<open>Map.set\<close> on a key already present replaces the value where it stands; on a new
  key it appends: this is \<open>AList.update\<close>.
\<close>

definition addService ::
  "(string \<Rightarrow> thrown + string) \<Rightarrow> X402Server \<Rightarrow> 'a X402ServiceConfig_scheme
     \<Rightarrow> (error + unit) \<times> X402Server \<times> ledger_call list" where
  "addService read srv serviceConfig =
     (let missingFields = missingServiceFields serviceConfig in
      if length missingFields > 0 then
        (Inl (ConfigurationError
               (''Missing required service fields: '' @ join '', '' missingFields)
               (Some missingFields)), srv, [])
      else
        (let addr = the (hookAddress serviceConfig) in
         case getSettlementRouter read addr of
           Inl e \<Rightarrow> (Inl e, srv, [GetSettlementRouter addr])
         | Inr router \<Rightarrow>
             (Inr (),
              srv\<lparr>services :=
                    AList.update (the (service_id serviceConfig))
                      (buildService (networkSettings srv) serviceConfig router)
                      (services srv)\<rparr>,
              [GetSettlementRouter addr])))"

definition getService :: "X402Server \<Rightarrow> string \<Rightarrow> X402Service option" where
  "getService srv i = map_of (services srv) i"

definition listServices :: "X402Server \<Rightarrow> X402Service list" where
  "listServices srv = map snd (services srv)"

text \<open>A sequence of \<open>addService\<close> calls, one after the other, each with the ledger as
  it answers at that moment; a failed call leaves the server as it was and the sequence
  goes on.\<close>

fun addServices ::
  "X402Server \<Rightarrow> ((string \<Rightarrow> thrown + string) \<times> 'a X402ServiceConfig_scheme) list
     \<Rightarrow> X402Server" where
  "addServices srv [] = srv"
| "addServices srv ((read, c) # cs) = addServices (fst (snd (addService read srv c))) cs"

section \<open>Submission pipeline (client)\<close>

record transfer_params =
  token :: string
  from_address :: string
  "value" :: int
  validAfter :: int
  validBefore :: int
  payTo :: string
  facilitatorFee :: int
  hook :: string

record eip712_domain =
  domain_name :: string
  domain_version :: string
  domain_chainId :: int
  verifyingContract :: string

record eip712_message =
  msg_from :: string
  msg_to :: string
  msg_value :: string
  msg_validAfter :: string
  msg_validBefore :: string
  msg_nonce :: string

record EIP712TypedData =
  types_EIP712Domain :: "(string \<times> string) list"
  types_TransferWithAuthorization :: "(string \<times> string) list"
  primaryType :: string
  domain :: eip712_domain
  message :: eip712_message

record PreparedTransaction =
  typedData :: EIP712TypedData
  routerAddress :: string
  nonce :: string
  salt :: string
  hookData :: string
  params :: transfer_params

record TransactionEvent =
  event_name :: string
  event_args :: "(string \<times> string) list"

record TransactionResult =
  success :: bool
  txHash :: string
  blockNumber :: int
  events :: "TransactionEvent list"

record CommitmentParams = transfer_params +
  commitment_salt :: string
  commitment_hookData :: string

record TransactionParams =
  service :: X402Service
  payerAddress :: string
  payTo_param :: string
  paymentAmount :: string
  facilitatorFee_param :: "string option"
  hookDataParams :: HookDataParams
  validitySeconds :: "int option"

text \<open>
  What \<open>prepareTransaction\<close> takes from outside: the clock (\<open>Date.now()\<close>, in
  milliseconds), the 32 random bytes as hex text, and the two ledger reads of the
  contract reader.
\<close>

record client_env =
  now_ms :: int
  randomSalt :: string
  routerCommitment :: "string \<Rightarrow> CommitmentParams \<Rightarrow> thrown + string"
  tokenNameVersion :: "string \<Rightarrow> thrown + string \<times> string"

definition calculateCommitment ::
  "client_env \<Rightarrow> string \<Rightarrow> CommitmentParams \<Rightarrow> error + string" where
  "calculateCommitment env router cp =
     (case routerCommitment env router cp of
        Inr commitment \<Rightarrow> Inr commitment
      | Inl (ErrorMsg m) \<Rightarrow> Inl (NetworkError (''Failed to calculate commitment: '' @ m) None None)
      | Inl NotAnError \<Rightarrow> Inl NonError)"

definition getTokenInfo :: "client_env \<Rightarrow> string \<Rightarrow> error + string \<times> string" where
  "getTokenInfo env tokenAddress =
     (case tokenNameVersion env tokenAddress of
        Inr info \<Rightarrow> Inr info
      | Inl (ErrorMsg m) \<Rightarrow> Inl (NetworkError (''Failed to read token info: '' @ m) None None)
      | Inl NotAnError \<Rightarrow> Inl NonError)"

text \<open>The operator \<open>||\<close> with a default, on an optional string and on an optional
  number: the default stands in for every falsy value, so for an absent one, for the
  empty string and for zero.\<close>

definition stringOr :: "string option \<Rightarrow> string \<Rightarrow> string" where
  "stringOr v d = (if truthy v then the v else d)"

definition numberOr :: "int option \<Rightarrow> int \<Rightarrow> int" where
  "numberOr v d = (case v of None \<Rightarrow> d | Some n \<Rightarrow> if n = 0 then d else n)"

definition intToString :: "int \<Rightarrow> string" where
  "intToString i = (if i < 0 then ''-'' @ natToString (nat (- i)) else natToString (nat i))"

text \<open>A field of a service that the interface declares and a JavaScript object may
  lack: the text, or nothing.\<close>

definition fieldText :: "string option \<Rightarrow> string" where
  "fieldText v = (case v of None \<Rightarrow> [] | Some t \<Rightarrow> t)"

definition encodeForService :: "X402Service \<Rightarrow> HookDataParams \<Rightarrow> error + string" where
  "encodeForService svc hookParams =
     (case hookType svc of
        None \<Rightarrow> Inl (Error ''Unknown hook type: undefined'')
      | Some t \<Rightarrow> encode t hookParams)"

definition eip712DomainType :: "(string \<times> string) list" where
  "eip712DomainType =
     [(''name'', ''string''), (''version'', ''string''), (''chainId'', ''uint256''),
      (''verifyingContract'', ''address'')]"

definition transferWithAuthorizationType :: "(string \<times> string) list" where
  "transferWithAuthorizationType =
     [(''from'', ''address''), (''to'', ''address''), (''value'', ''uint256''),
      (''validAfter'', ''uint256''), (''validBefore'', ''uint256''), (''nonce'', ''bytes32'')]"

text \<open>The time bounds: \<open>validAfter\<close> is 0, \<open>validBefore\<close> is the clock in whole
  seconds plus the validity.\<close>

definition validBeforeAt :: "client_env \<Rightarrow> TransactionParams \<Rightarrow> int" where
  "validBeforeAt env p = now_ms env div 1000 + numberOr (validitySeconds p) 3600"

definition transferParamsOf :: "client_env \<Rightarrow> TransactionParams \<Rightarrow> int \<Rightarrow> int \<Rightarrow> transfer_params" where
  "transferParamsOf env p amount fee =
     \<lparr>token = service_usdcAddress (service p), from_address = payerAddress p, value = amount,
      validAfter = 0, validBefore = validBeforeAt env p,
      payTo = payTo_param p, facilitatorFee = fee,
      hook = fieldText (hookAddress (service p))\<rparr>"

definition typedDataOf ::
  "TransactionParams \<Rightarrow> transfer_params \<Rightarrow> string \<Rightarrow> string \<times> string \<Rightarrow> EIP712TypedData" where
  "typedDataOf p tp commitment info =
     \<lparr>types_EIP712Domain = eip712DomainType,
      types_TransferWithAuthorization = transferWithAuthorizationType,
      primaryType = ''TransferWithAuthorization'',
      domain =
        \<lparr>domain_name = fst info, domain_version = snd info,
         domain_chainId = service_chainId (service p),
         verifyingContract = service_usdcAddress (service p)\<rparr>,
      message =
        \<lparr>msg_from = payerAddress p, msg_to = settlementRouter (service p),
         msg_value = intToString (value tp),
         msg_validAfter = intToString (validAfter tp),
         msg_validBefore = intToString (validBefore tp),
         msg_nonce = commitment\<rparr>\<rparr>"

text \<open>
  \<open>prepareTransaction\<close>, in the order of the source: the hook data, the salt and the
  time bounds, the two amounts, the commitment, the token information, the typed data.
  It returns its result and the ledger calls made.
\<close>

definition prepareTransaction ::
  "client_env \<Rightarrow> TransactionParams \<Rightarrow> (error + PreparedTransaction) \<times> ledger_call list" where
  "prepareTransaction env p =
     (case encodeForService (service p) (hookDataParams p) of
        Inl e \<Rightarrow> (Inl e, [])
      | Inr hookData_hex \<Rightarrow>
          (case parseUnits (paymentAmount p) 6 of
             Inl e \<Rightarrow> (Inl e, [])
           | Inr amount \<Rightarrow>
               (case parseUnits (stringOr (facilitatorFee_param p) ''0'') 6 of
                  Inl e \<Rightarrow> (Inl e, [])
                | Inr fee \<Rightarrow>
                    (let router = settlementRouter (service p);
                         usdc = service_usdcAddress (service p);
                         tp = transferParamsOf env p amount fee;
                         cp = transfer_params.extend tp
                                (CommitmentParams.fields (randomSalt env) hookData_hex)
                     in case calculateCommitment env router cp of
                          Inl e \<Rightarrow> (Inl e, [CalculateCommitment router])
                        | Inr commitment \<Rightarrow>
                            (case getTokenInfo env usdc of
                               Inl e \<Rightarrow> (Inl e, [CalculateCommitment router, GetTokenInfo usdc])
                             | Inr info \<Rightarrow>
                                 (Inr \<lparr>typedData = typedDataOf p tp commitment info,
                                       routerAddress = router,
                                       nonce = commitment,
                                       salt = randomSalt env,
                                       hookData = hookData_hex,
                                       params = tp\<rparr>,
                                  [CalculateCommitment router, GetTokenInfo usdc]))))))"

text \<open>
  \<open>validateSignature\<close>: the three checks of the source, in its order. The regular
  expression \<open>/^[0-9a-fA-F]+$/\<close> holds of a string that is not empty and has hex digits
  only.
\<close>

definition validateSignature :: "string \<Rightarrow> bool" where
  "validateSignature signature =
     (if \<not> startsWith signature ''0x'' then False
      else if length signature \<noteq> 132 then False
      else (let hexPart = drop 2 signature
            in hexPart \<noteq> [] \<and> list_all isHexDigit hexPart))"

text \<open>
  The ledger as \<open>submitTransaction\<close> sees it. \<open>newWallet\<close> is the construction of the
  signer from the private key (it throws on a malformed key), \<open>settleAndExecute\<close> sends
  the settlement call and waits for its receipt, \<open>parseLog\<close> is the router interface's
  log parser: it returns a parsed event, returns null, or throws.
\<close>

datatype 'log parsed = Parsed string "(string \<times> string) list" | NoMatch | ParseThrows

record 'log receipt =
  receipt_hash :: string
  receipt_blockNumber :: int
  receipt_logs :: "'log list"

record 'log settlement_ledger =
  newWallet :: "string \<Rightarrow> thrown option"
  settleAndExecute :: "ledger_call \<Rightarrow> thrown + 'log receipt"
  parseLog :: "'log \<Rightarrow> 'log parsed"

definition parseEvent :: "('log \<Rightarrow> 'log parsed) \<Rightarrow> 'log \<Rightarrow> TransactionEvent" where
  "parseEvent parse l =
     (case parse l of
        Parsed n args \<Rightarrow> \<lparr>event_name = n, event_args = args\<rparr>
      | NoMatch \<Rightarrow> \<lparr>event_name = ''Unknown'', event_args = []\<rparr>
      | ParseThrows \<Rightarrow> \<lparr>event_name = ''Unknown'', event_args = []\<rparr>)"

text \<open>
  The match of \<open>/reason="([^"]+)"/\<close> in an error message: the leftmost position where
  \<open>reason="\<close> is followed by a non-empty run of characters other than the double quote
  and then a double quote; the run is the captured group.
\<close>

definition reasonAt :: "string \<Rightarrow> string option" where
  "reasonAt s =
     (if startsWith s (''reason='' @ [CHR 0x22]) then
        (let rest = drop 8 s;
             run = takeWhile (\<lambda>c. c \<noteq> CHR 0x22) rest;
             after = dropWhile (\<lambda>c. c \<noteq> CHR 0x22) rest
         in if run \<noteq> [] \<and> after \<noteq> [] then Some run else None)
      else None)"

fun revertMatch :: "string \<Rightarrow> string option" where
  "revertMatch [] = None"
| "revertMatch (c # cs) =
     (case reasonAt (c # cs) of Some r \<Rightarrow> Some r | None \<Rightarrow> revertMatch cs)"

definition settleCall :: "PreparedTransaction \<Rightarrow> string \<Rightarrow> ledger_call" where
  "settleCall prepared signature =
     SettleAndExecute (routerAddress prepared)
       (token (params prepared)) (from_address (params prepared))
       (value (params prepared)) (validAfter (params prepared))
       (validBefore (params prepared)) (nonce prepared) signature (salt prepared)
       (payTo (params prepared)) (facilitatorFee (params prepared))
       (hook (params prepared)) (hookData prepared)"

definition transactionFailure :: "thrown \<Rightarrow> error" where
  "transactionFailure t =
     (case t of
        ErrorMsg m \<Rightarrow> TransactionError (''Transaction failed: '' @ m) None (revertMatch m)
      | NotAnError \<Rightarrow> NonError)"

text \<open>
  \<open>submitTransaction\<close> returns its result and the ledger calls it made. The signature
  check comes first and throws outside the \<open>try\<close> block.
\<close>

definition submitTransaction ::
  "'log settlement_ledger \<Rightarrow> PreparedTransaction \<Rightarrow> string \<Rightarrow> string
     \<Rightarrow> (error + TransactionResult) \<times> ledger_call list" where
  "submitTransaction ledger prepared signature signerPrivateKey =
     (if \<not> validateSignature signature then
        (Inl (SignatureError ''Invalid signature format''
               (Some ''Signature must be a 65-byte hex string starting with 0x'')), [])
      else
        (case newWallet ledger signerPrivateKey of
           Some t \<Rightarrow> (Inl (transactionFailure t), [])
         | None \<Rightarrow>
             (let call = settleCall prepared signature in
              case settleAndExecute ledger call of
                Inl t \<Rightarrow> (Inl (transactionFailure t), [call])
              | Inr receipt \<Rightarrow>
                  (Inr \<lparr>success = True,
                        txHash = receipt_hash receipt,
                        blockNumber = receipt_blockNumber receipt,
                        events = map (parseEvent (parseLog ledger)) (receipt_logs receipt)\<rparr>,
                   [call]))))"

subsection \<open>Vocabulary for the registry's properties\<close>

text \<open>A call registers when no required field is missing and the ledger answers.\<close>

definition registers :: "(string \<Rightarrow> thrown + string) \<Rightarrow> 'a X402ServiceConfig_scheme \<Rightarrow> bool" where
  "registers read c =
     (missingServiceFields c = [] \<and>
      (case read (the (hookAddress c)) of Inr _ \<Rightarrow> True | Inl _ \<Rightarrow> False))"

text \<open>The ids of the calls of a sequence that succeeded, in call order.\<close>

fun registeredIds ::
  "X402Server \<Rightarrow> ((string \<Rightarrow> thrown + string) \<times> 'a X402ServiceConfig_scheme) list
     \<Rightarrow> string list" where
  "registeredIds srv [] = []"
| "registeredIds srv ((read, c) # cs) =
     (case addService read srv c of
        (Inr _, srv', _) \<Rightarrow> the (service_id c) # registeredIds srv' cs
      | (Inl _, srv', _) \<Rightarrow> registeredIds srv' cs)"

text \<open>A list without its repetitions, each element where it first occurs.\<close>

fun firstOccurrences :: "'a list \<Rightarrow> 'a list" where
  "firstOccurrences [] = []"
| "firstOccurrences (x # xs) = x # filter (\<lambda>y. y \<noteq> x) (firstOccurrences xs)"

definition insertKey :: "string list \<Rightarrow> string \<Rightarrow> string list" where
  "insertKey ks k = (if k \<in> set ks then ks else ks @ [k])"

text \<open>The invariant of the map of services: a record is stored under its own id and
  carries the network fields of the settings \<open>ns\<close>.\<close>

definition stored_ok :: "NetworkSettings \<Rightarrow> (string \<times> X402Service) list \<Rightarrow> bool" where
  "stored_ok ns al =
     (\<forall>(k, s) \<in> set al. service_id s = Some k \<and> service_usdcAddress s = usdcAddress ns \<and>
        service_chainId s = chainId ns)"

subsection \<open>Vocabulary for the codec's properties\<close>

text \<open>The sum of a list of numbers as \<open>reduce\<close> takes it: from 0, left to right, each
  sum rounded to a double.\<close>

definition doubleSum :: "number list \<Rightarrow> number" where
  "doubleSum ns = foldl jsAdd (Finite 0) ns"

text \<open>The integer that a number with an integer value holds.\<close>

definition integerOf :: "number \<Rightarrow> int" where
  "integerOf v = (case v of Finite r \<Rightarrow> \<lfloor>r\<rfloor> | _ \<Rightarrow> 0)"

text \<open>Every sum of the start value and a prefix of the list is a safe integer
  (\<open>Number.MAX_SAFE_INTEGER\<close> in magnitude at most).\<close>

fun safePartialSums :: "int \<Rightarrow> int list \<Rightarrow> bool" where
  "safePartialSums a [] = (\<bar>a\<bar> \<le> 9007199254740991)"
| "safePartialSums a (b # bs) = (\<bar>a\<bar> \<le> 9007199254740991 \<and> safePartialSums (a + b) bs)"

text \<open>An address in the form in which \<open>getAddress\<close> returns it: the prefix \<open>0x\<close> and
  40 hex digits in the case that the checksum gives each letter.\<close>

definition canonicalAddress :: "string \<Rightarrow> bool" where
  "canonicalAddress a = (getAddress a = Some a)"

text \<open>A number that is a value of the type \<open>uint16\<close>.\<close>

definition isUint16 :: "number \<Rightarrow> bool" where
  "isUint16 v = (isInteger v \<and> 0 \<le> integerOf v \<and> integerOf v \<le> 65535)"

definition canonicalSplit :: "split \<Rightarrow> bool" where
  "canonicalSplit s = (canonicalAddress (recipient s) \<and> isUint16 (bips s))"

text \<open>Parameters whose addresses are in that form and whose bips are values of
  \<open>uint16\<close>; the length of an array fits the 32 bits the library counts with.\<close>

definition canonicalParams :: "HookDataParams \<Rightarrow> bool" where
  "canonicalParams p =
     (case p of
        NFTMintHookData a \<Rightarrow> canonicalAddress a
      | RewardPointsHookData a \<Rightarrow> canonicalAddress a
      | TransferSplitHookData None \<Rightarrow> True
      | TransferSplitHookData (Some ss) \<Rightarrow> list_all canonicalSplit ss \<and> length ss < 2 ^ 32)"

text \<open>The parameters with an empty array of splits read as no splits.\<close>

definition withoutEmptySplits :: "HookDataParams \<Rightarrow> HookDataParams" where
  "withoutEmptySplits p =
     (case p of
        TransferSplitHookData (Some []) \<Rightarrow> TransferSplitHookData None
      | _ \<Rightarrow> p)"

subsection \<open>The example deployment of the README\<close>

definition exampleServerConfig :: X402ServerConfig where
  "exampleServerConfig =
     \<lparr>server_name = Some ''My X402 Services'',
      server_description = Some ''x402 protocol services on Cronos'',
      server_url = Some ''http://localhost:8787'',
      server_network = Some ''cronos-testnet'',
      server_rpcUrl = None\<rparr>"

definition exampleServer :: X402Server where
  "exampleServer =
     \<lparr>config = exampleServerConfig, services = [],
      networkSettings =
        \<lparr>chainId = 338, rpcUrl = ''https://evm-t3.cronos.org'',
         usdcAddress = ''0xc01efAaF7C5C61bEbFAeb358E1161b537b8bC0e0'',
         blockExplorer = ''https://explorer.cronos.org/testnet''\<rparr>\<rparr>"

definition nftMintService :: X402ServiceConfig where
  "nftMintService =
     \<lparr>service_id = Some ''nft-mint'',
      title = ''NFT Mint Service'',
      description = Some ''Mint a random NFT by paying with USDC'',
      hookType = Some NftMint,
      hookAddress = Some ''0xf2A8921EEAda2734FeAbB9EC1d73fC5771B4Ec5B'',
      network = Some ''cronos-testnet'',
      supportingContracts = Some (Some ''0xA8633f571c51ad0EA7b3c51EC930Ee51fF8F0551'', None),
      defaults = Some (''0.1'', ''0'', ''0xYourMerchantAddress'')\<rparr>"

definition rewardPointsService :: X402ServiceConfig where
  "rewardPointsService =
     \<lparr>service_id = Some ''reward-points'',
      title = ''Reward Points Service'',
      description = Some ''Earn reward points by making a payment'',
      hookType = Some RewardPoints,
      hookAddress = Some ''0xaF49Bd5164D530aC5127d364F6ce4e079741950b'',
      network = Some ''cronos-testnet'',
      supportingContracts = Some (None, Some ''0xF7A17B7EA6EBB661A88B45035D58f0699C7b9d31''),
      defaults = Some (''0.1'', ''0'', ''0xYourMerchantAddress'')\<rparr>"

text \<open>A caller's object that carries the three resolved fields itself, with values of
  its own choosing.\<close>

definition spoofedService :: X402Service where
  "spoofedService =
     X402ServiceConfig.extend nftMintService
       (X402Service.fields ''0x0000000000000000000000000000000000000bad''
          ''0x0000000000000000000000000000000000000bad'' 1)"

text \<open>A chain on which the three hooks of the README answer with the deployed
  settlement router and every other address has no code, and the ledger that a reader
  of it is, with the library at a version 6.\<close>

definition testnetChain :: "string \<Rightarrow> account" where
  "testnetChain a =
     (if a = ''0xf2A8921EEAda2734FeAbB9EC1d73fC5771B4Ec5B'' \<or>
         a = ''0xaF49Bd5164D530aC5127d364F6ce4e079741950b'' \<or>
         a = ''0xC94ebf218bb67d6FF5599B5a6457Ad5E70E0db8D''
      then HookContract ''0x80e941858065dfD4875030A7a30DfbfeE8c7742a''
      else NoCode)"

definition testnetLedger :: "string \<Rightarrow> thrown + string" where
  "testnetLedger = callSettlementRouter ''6.0.0'' testnetChain"

text \<open>A ledger on which every call reverts.\<close>

definition revertingLedger :: "string \<Rightarrow> thrown + string" where
  "revertingLedger =
     callSettlementRouter ''6.0.0''
       (\<lambda>a. Failing (ErrorMsg ''missing revert data (code=CALL_EXCEPTION)''))"

subsection \<open>An example payment\<close>

text \<open>The transfer service of the README, as the registry stores it on the test
  network, and a plain transfer of 0.1 through it at Unix time 1700000000.\<close>

definition transferService :: X402Service where
  "transferService =
     \<lparr>service_id = Some ''transfer-split'',
      title = ''Transfer/Split Payment Service'',
      description = Some ''Transfer or split payments between multiple recipients'',
      hookType = Some TransferSplit,
      hookAddress = Some ''0xC94ebf218bb67d6FF5599B5a6457Ad5E70E0db8D'',
      network = Some ''cronos-testnet'',
      supportingContracts = None,
      defaults = Some (''0.1'', ''0'', ''0xYourMerchantAddress''),
      settlementRouter = ''0x80e941858065dfD4875030A7a30DfbfeE8c7742a'',
      service_usdcAddress = ''0xc01efAaF7C5C61bEbFAeb358E1161b537b8bC0e0'',
      service_chainId = 338\<rparr>"

definition exampleEnv :: client_env where
  "exampleEnv =
     \<lparr>now_ms = 1700000000123,
      randomSalt = ''0x'' @ replicate 64 CHR ''2'',
      routerCommitment = (\<lambda>router cp. Inr (''0x'' @ replicate 64 CHR ''1'')),
      tokenNameVersion = (\<lambda>a. Inr (''USDC'', ''2''))\<rparr>"

definition exampleTransfer :: TransactionParams where
  "exampleTransfer =
     \<lparr>service = transferService,
      payerAddress = ''0x0000000000000000000000000000000000000001'',
      payTo_param = ''0x0000000000000000000000000000000000000002'',
      paymentAmount = ''0.1'',
      facilitatorFee_param = None,
      hookDataParams = TransferSplitHookData None,
      validitySeconds = None\<rparr>"

definition examplePrepared :: PreparedTransaction where
  "examplePrepared =
     \<lparr>typedData =
        \<lparr>types_EIP712Domain = eip712DomainType,
         types_TransferWithAuthorization = transferWithAuthorizationType,
         primaryType = ''TransferWithAuthorization'',
         domain =
           \<lparr>domain_name = ''USDC'', domain_version = ''2'', domain_chainId = 338,
            verifyingContract = ''0xc01efAaF7C5C61bEbFAeb358E1161b537b8bC0e0''\<rparr>,
         message =
           \<lparr>msg_from = ''0x0000000000000000000000000000000000000001'',
            msg_to = ''0x80e941858065dfD4875030A7a30DfbfeE8c7742a'',
            msg_value = ''100000'', msg_validAfter = ''0'', msg_validBefore = ''1700003600'',
            msg_nonce = ''0x'' @ replicate 64 CHR ''1''\<rparr>\<rparr>,
      routerAddress = ''0x80e941858065dfD4875030A7a30DfbfeE8c7742a'',
      nonce = ''0x'' @ replicate 64 CHR ''1'',
      salt = ''0x'' @ replicate 64 CHR ''2'',
      hookData = ''0x'',
      params =
        \<lparr>token = ''0xc01efAaF7C5C61bEbFAeb358E1161b537b8bC0e0'',
         from_address = ''0x0000000000000000000000000000000000000001'',
         value = 100000, validAfter = 0, validBefore = 1700003600,
         payTo = ''0x0000000000000000000000000000000000000002'',
         facilitatorFee = 0,
         hook = ''0xC94ebf218bb67d6FF5599B5a6457Ad5E70E0db8D''\<rparr>\<rparr>"

text \<open>A ledger that rejects every settlement call.\<close>

definition rejectingLedger :: "nat settlement_ledger" where
  "rejectingLedger =
     \<lparr>newWallet = (\<lambda>k. None),
      settleAndExecute = (\<lambda>c. Inl (ErrorMsg ''execution reverted'')),
      parseLog = (\<lambda>l. NoMatch)\<rparr>"

subsection \<open>A worked hash\<close>

text \<open>
  The states of the permutation on the one block of the 40 characters
  \<open>a8633f571c51ad0ea7b3c51ec930ee51ff8f0551\<close> (the NFT contract of the README, in
  lower case): the block as absorbed, then the state after each of the 24 rounds. The
  rounds are checked one by one below.
\<close>

definition exampleStates :: "lane list list" where
  "exampleStates =
     [[3978198215940257889, 7291438165313020721, 7291667971869652833, 3545851766898899299,
       3545798763613808230, 1, 0, 0, 0, 0, 0, 0, 0, 0, 0, 0, 9223372036854775808, 0, 0, 0, 0,
       0, 0, 0, 0],
      [6117308775789794021, 4979412804601639998, 10560846268999749150, 16456126784629695307,
       14648786285383357132, 2772130689655956387, 10404834519797423978, 7675540887202775087,
       5099279303386475326, 6984577270094198374, 3574402401261906233, 10280214729280814240,
       12087157822900992702, 6894944466482864511, 3596471329711716759, 9336784936351519796,
       5075038805749047080, 17595992561361525671, 5176193471424989101, 16802749196576987643,
       10502032532488079655, 6252025423557094781, 9203353980197182248, 12520798426234873132,
       12924551208613108435],
      [9973999233556906369, 4768141139711584590, 9723355227167952885, 8161628533514302950,
       4392130754467862726, 16173286346396479344, 15377983007890412979, 11220969715477070656,
       6263274742384248640, 17462797892981077424, 9061462556998396759, 18349225011945178635,
       5364804558928530549, 9099185874280417914, 6593965936361576901, 16557022940052581233,
       11587760488779162466, 16593352838022894847, 6877467169023188679, 2288007520913484207,
       5231023416809979812, 9983290775188737841, 11366049725145498879, 6714519301281076798,
       3766118057792536659],
      [3604986105746176326, 13140381544714286371, 3807052954642116195, 7532943512373390740,
       4850886484131529356, 13133466005953937039, 4485819680307072529, 2621272292052235920,
       5202353358845629045, 5566182334666767922, 4776545839464691579, 16818653848739324906,
       5239666382229677892, 9043028916604854042, 9002170646898249044, 15346891431156097496,
       8648519171491375248, 16887863893205685834, 10214822772552108225, 5190496165356140093,
       15890957441467947631, 10282236133888043474, 17150976213658650043,
       15977342913124304475, 11903252055951138457],
      [730056358891293213, 8356319167561867351, 6341283045535955318, 18162896947157847818,
       14468418497412639070, 17430182031549677258, 9163906670151058234, 11199505832437704735,
       7404851038169471527, 7376063236737485068, 13860807587586196945, 4503671234646418803,
       14226966035380897958, 5475817788092324508, 18185898514539675792, 6524389665260246813,
       18225302010688983801, 13490505343378489974, 16013887468978418549, 2367371560644796344,
       14912378138811418846, 5048759693667102157, 9518928899523164976, 2238051416062293659,
       17358876832400853103],
      [17908167818037350364, 11157947539611781989, 8604562421187702189, 14093630744391603020,
       14924492271480209386, 6842208463401950549, 6513385476702542391, 2231546820678790234,
       2147623522430194220, 9553900375668992726, 6361700092892811025, 16290035778547953323,
       7488701100269216136, 763673670752986735, 16411360897864832281, 8302225338544562557,
       11460431440420119185, 985908441474421180, 16366320050925287880, 3831218763022942712,
       894977818541716920, 5163705923373901170, 10968695118884814978, 9587243962284519338,
       3230131967687262760],
      [13684643624427500165, 18383164699647340646, 7550970148829125808, 15919062914733141335,
       9297382046929774109, 9904613258778208450, 2809722978744879738, 12674307160506344648,
       2966156233723554079, 5079721772268798053, 18002437218651324768, 4824855020023295713,
       12069663139749504996, 1409354499872059105, 5043525519826813331, 8745652667008426618,
       13663829020877786029, 10369690664850216723, 15702793489810881822, 9583000084702643160,
       4190562103693794515, 16849861236683049715, 383759490612535784, 10423546437631209161,
       9600589259874974355],
      [2311119254857355139, 18377428417989547913, 5765123085119507574, 12743402088764337216,
       11915412544750468382, 15430044220987519478, 6943329184764598352, 11625808171882620027,
       5961532197278219410, 17460612528083314902, 6577999416697717855, 3212808731350889901,
       8990576224505835349, 11270444271700917050, 6758776713423945442, 11047624697961752933,
       17534821710676762128, 8941361328806158531, 4517921488282879583, 10364171677954568434,
       16103762215778903578, 640878058266915868, 7199351920171723825, 14261264949511208498,
       14965520717267269326],
      [4179534978242634724, 4518732169088748087, 2659715624433298877, 13209612977413714805,
       15676175582716641024, 16418758425877379482, 5257469947526490254, 646458222855212228,
       6652666686438105828, 6341883418150822220, 8371660518358183570, 16743555262954969724,
       8461499908074407352, 1054484433115887582, 5045937640334955664, 17849426138131140427,
       9215991405846694616, 17531573971594123014, 7212420220226965349, 13583069049803124319,
       8139771028167292872, 5378081342069838550, 4279482010077330223, 11015318747505687565,
       10925919963560171621],
      [9237994286576668191, 3157309309414976180, 754900937675803860, 6393951476873235129,
       1424044707736262369, 17121763521109535971, 5942109022184284287, 8483863160474738490,
       8857541426835150555, 4935762347399747113, 5574094099668069896, 15991690484171093636,
       5099973145105352729, 14233953149180912368, 12654436625687133139, 15947417658014256631,
       16114239785845423545, 1275212409998738317, 2247661913985382289, 2913996776790441221,
       2989288603035234620, 7550963153808335881, 7252691652295718363, 17146600824179171989,
       14577097444927749024],
      [4263267624299657423, 1779354957875018982, 566423713721369604, 4586276582435406787,
       12113042575068387993, 10885491963622664787, 15374357144040476787, 9872792046001300099,
       18363602753849302331, 3112551209293409769, 11409085353346925338, 12296506659098844759,
       6790264011490023568, 5940897868511309700, 6217111459297504463, 10257007706514623134,
       9131550967273831046, 3313255535945934176, 2998910501610019032, 4048825702155789172,
       8963196114114529235, 235878605750036389, 3690872656915780306, 6809266449189126516,
       10661021965583130064],
      [16350542288445968399, 3296099555775957287, 11037790791556264698, 10800584819842571812,
       12857646057333307596, 6824695083439664277, 4511789080072480311, 17631798302472086156,
       9526331832678945100, 8936024736149057264, 17066236151370018277, 11111559525182148818,
       8484476309866207226, 17687512498210870036, 3249784310836350613, 9184587102483118880,
       4350355115893784231, 8900247102826438616, 7852216748027866416, 16675712373624433029,
       4554802775664308113, 6162850859267755215, 9081953303477606687, 5469665245073331887,
       4410508356016218363],
      [6552837210522864327, 3338773133317874585, 8262055914949461513, 9976510086944942525,
       11114924308611446756, 17955762470771982247, 17322065606809298536,
       16374894427789265246, 13204524686145980824, 5148995396141988646, 3232422747814140924,
       14851677975627743333, 16344881101845496662, 4733052612606524143, 460556311806819861,
       3607810616889602528, 1447731763826269839, 15367111311323970086, 10956963109089758996,
       5057116270234572011, 18203698145854674595, 11283734398207906937, 2561973519413712087,
       5495331970044597318, 17872993159593340421],
      [3353549309223260160, 10782018873670168905, 2621482291762449561, 15701262334725514647,
       898476336885068983, 12599993905232558626, 12002098783111699003, 14034596367606770179,
       11008674318308798749, 10181898373542326805, 9913638153988097866, 13300123854266631779,
       16170060756474509380, 12393295098744836137, 9865136713125306891, 17644730808292683179,
       3254577758610061009, 15950552791503691446, 14510637189340499795, 14772705949343966454,
       18218739884153656020, 10138744862378654652, 15427039323286172526, 8491568633167880995,
       6467691390938073142],
      [8638333012774768907, 17181244970720163558, 8369375157575854297, 15967196466227167927,
       12317174251532674893, 9089016320933430464, 6502322276548315778, 404340989983268494,
       14554449821214181794, 738907475885419380, 12653519299150578467, 5515951681147696217,
       13678489178695552468, 16339190726571787197, 14442076561153761946, 9130897625670056374,
       4067745703747707269, 6610543060953117321, 13567648714335331944, 8521480337671844929,
       17376485349677976144, 5052968188685521099, 5481719047079955293, 10262080789182472362,
       6761512280375627447],
      [8119295640690549521, 2601528140056603598, 17317666807869695692, 9424020030929248724,
       2291566875696560885, 16810523611711125457, 16765384433263695807, 346418232305989060,
       7281791484530033844, 7553787710690581969, 12745495284102281819, 10037641065585896226,
       6614149947836438229, 4319790218082530799, 9311288745615441056, 18387112444404855976,
       2411191132755211857, 8645113864702124995, 13560842830174633766, 6305328665195324127,
       16056483729010741015, 17241540980155482677, 12282391133365091803, 6069454135606222344,
       4644037966975616395],
      [2468942040598378380, 16073875343043133660, 13410599371861343745, 4324288243700197716,
       8194851173883386220, 16496610921726311536, 4631657255492921643, 6070608516499112343,
       13409825917291174154, 14085079196762676918, 12871797796747837891, 2078278553880053769,
       9579919017533348611, 6037916718573434610, 16678319721569902147, 3088056474685303261,
       15326022106166668820, 6448836880760222144, 3380041982310824741, 13602349263462960732,
       14116770953682856358, 2911069976084725462, 12677814195699106970, 2437703293115960447,
       2319677742963463293],
      [6768868628000721502, 3967150998206767812, 7785196953867636408, 5738415700367130773,
       11764571348405555369, 1984745442537423570, 8517193255213232375, 3344382777070555284,
       18138763290460294723, 14451986079358822125, 16582660337605081670,
       16782707067239912115, 3670385732665145416, 2759364474546364752, 9765936925438366130,
       16726772745396704437, 3872341476322113953, 11308928942248193767, 1027048139087453016,
       15470879172048030802, 4116780422908995620, 6546619734530643142, 4545996554971803458,
       13093118685536707427, 17708518576422209781],
      [4571455293873666628, 5851276102982676859, 11555864152377867551, 9831563592074812050,
       9361394343337741952, 13240740179472502345, 15511710357111599618, 9479343049060456420,
       6705706242965247710, 18256351912309368235, 15000382160825810617, 7836623167523505011,
       4008128250449370658, 11305999966402861837, 16576273208194231723, 5946555699621519197,
       4734039422674100987, 17072847939460509183, 11259988136437962460, 56618530841634208,
       4276244149639758593, 12865469768554139639, 13945919675367738925, 2954465884171980937,
       13089667417811142668],
      [11798082089094859052, 8641924208143513997, 14747633705950363733, 9500490967325333860,
       14692497177312766583, 13975134978605272394, 17813060721592152914, 2523934229223402702,
       9980295602103298805, 8805221521210812417, 2612474996984504105, 9030409869593613020,
       436752343446345466, 12737871939627935132, 15782052913045749401, 3301164585162878857,
       9645503820434304743, 13917110487208326318, 5451421561292177386, 6359189262355400311,
       3474826721570113560, 16017491784900143977, 11964291789892981981, 638660935123881662,
       71463716743478628],
      [3307533425459700167, 10284756025794702185, 17906080005252470570, 1202145012978391674,
       165803424787222855, 15443442136882907703, 13948890469112057904, 17509448270067799798,
       6684358539838420857, 8592510759537519092, 12321579603026010988, 1521309814289296909,
       6897851149338018822, 7031940964769386617, 16315231728743654802, 7869496659931966166,
       3326816907578894558, 14709768422316252781, 4111128361680270684, 5108074152339391187,
       15554933083825808570, 14706126713201055519, 13569661559536616831,
       18068119101283503983, 7694234221018928975],
      [15547929960641216017, 5663720786175617310, 17817205157960266667, 17846784042518278018,
       1321787727601653244, 12610463085058253270, 1000118169555493663, 571721861213367288,
       3923133077058134980, 3164168109516881446, 1810124476169446274, 12736464564660767819,
       15428191275934109457, 17258521306296023935, 15911659585692004306,
       18270299092449690284, 2056872970491309341, 3228510284282181200, 4635200133245424754,
       15904978218835311059, 4559905366767365738, 508899158631232794, 10225077017518049257,
       7299918006761520805, 17626570388485877993],
      [7703366646988279345, 14694434747853197494, 12339944777617458573, 14405525178674981464,
       14276071247504367166, 11387388606867475672, 8476265158164221286, 2954485649113809173,
       9659400989468290482, 8056748306341950795, 17111972246817140053, 15409317753167002239,
       7912549731386891998, 51688852739676804, 123890530593512384, 11600612163973654101,
       18370257585272851581, 11282118174688405619, 4093986029723757423, 7311668179037044002,
       13859538614122555294, 2977930781846721999, 5452115152956524239, 14356528835855606240,
       9341965726439616987],
      [6803817976177994818, 18135728894792635864, 13039649791836479565, 248083534168419758,
       5124314193327104864, 8602198697835379311, 13599678520640943345, 18235492491057720214,
       9754470195893534055, 13387116285270622834, 8017126536080812650, 1534221335437253586,
       17884203333250647637, 13815248081868161378, 10287085522768085668, 2232755913907163226,
       17004689471242756909, 3617495465605391223, 11532436654741941998, 16385900234874958600,
       16090178230781412661, 11535944342345205654, 11662449136874092177,
       10614576679031434434, 11821127789231178736],
      [15804004724283788190, 15046974516313139137, 16491871226347432728,
       11103771641423846024, 2859428605118225546, 2912324000846407081, 16930242547958234229,
       18054825002660857146, 6276506308608316390, 3656132357129892843, 15590929215463510336,
       5023867694743860445, 15615138907390991367, 5017226048780291812, 8367372467084184399,
       9298181974550730634, 15593030740151048540, 3063860788271303449, 4297712666159155609,
       9123045566658011398, 16805496959715045894, 8780837094103904825, 666953638507019367,
       15591216116954182555, 10276975999955728408]]"

section \<open>Signature shape\<close>

lemma startsWith_0x: "startsWith s ''0x'' \<longleftrightarrow> take 2 s = ''0x''"
  by (simp add: startsWith_def numeral_2_eq_2)

lemma validateSignature_iff:
  "validateSignature s \<longleftrightarrow>
     take 2 s = ''0x'' \<and> length s = 132 \<and> length (drop 2 s) = 130 \<and>
     (\<forall>c \<in> set (drop 2 s). isHexDigit c)"
  by (auto simp: validateSignature_def startsWith_0x list_all_iff Let_def)

text \<open>
  C4. \<open>validateSignature s\<close> is true exactly when \<open>s\<close> starts with the two characters
  \<open>0x\<close>, has 130 characters after them (132 in all) and every character after the
  marker is a hex digit; and when \<open>validateSignature\<close> is false, \<open>submitTransaction\<close>
  fails with the SignatureError and has made no ledger call.
\<close>

theorem validateSignature_shape:
  "(validateSignature s \<longleftrightarrow>
      take 2 s = ''0x'' \<and> length s = 132 \<and> length (drop 2 s) = 130 \<and>
      (\<forall>c \<in> set (drop 2 s). isHexDigit c)) \<and>
   (\<not> validateSignature s \<longrightarrow>
      submitTransaction ledger prepared s key =
        (Inl (SignatureError ''Invalid signature format''
               (Some ''Signature must be a 65-byte hex string starting with 0x'')), []))"
  by (simp add: validateSignature_iff submitTransaction_def)

theorem validateSignature_shape_witness:
  "validateSignature (''0x'' @ replicate 130 CHR ''a'') \<and>
   \<not> validateSignature (''0x'' @ replicate 129 CHR ''a'') \<and>
   submitTransaction rejectingLedger examplePrepared (''0x'' @ replicate 129 CHR ''a'') [] =
     (Inl (SignatureError ''Invalid signature format''
            (Some ''Signature must be a 65-byte hex string starting with 0x'')), [])"
  using validateSignature_shape
      [of "''0x'' @ replicate 130 CHR ''a''" rejectingLedger examplePrepared "[]"]
    validateSignature_shape
      [of "''0x'' @ replicate 129 CHR ''a''" rejectingLedger examplePrepared "[]"]
  by (simp add: isHexDigit_def)

section \<open>Service registry\<close>

subsection \<open>One call of \<open>addService\<close>\<close>

lemma set_missingServiceFields:
  "set (missingServiceFields c) =
     {f. (f = ''id'' \<and> \<not> truthy (service_id c)) \<or>
         (f = ''hookAddress'' \<and> \<not> truthy (hookAddress c)) \<or>
         (f = ''hookType'' \<and> hookType c = None) \<or>
         (f = ''network'' \<and> \<not> truthy (network c))}"
  by (auto simp: missingServiceFields_def)

lemma buildService_fields [simp]:
  "service_usdcAddress (buildService ns c r) = usdcAddress ns"
  "service_chainId (buildService ns c r) = chainId ns"
  "settlementRouter (buildService ns c r) = r"
  "service_id (buildService ns c r) = service_id c"
  "hookAddress (buildService ns c r) = hookAddress c"
  "hookType (buildService ns c r) = hookType c"
  "network (buildService ns c r) = network c"
  "title (buildService ns c r) = title c"
  by (simp_all add: buildService_def X402ServiceConfig.extend_def X402ServiceConfig.truncate_def
      X402Service.fields_def)

lemma addService_success:
  assumes "missingServiceFields c = []" and "read (the (hookAddress c)) = Inr router"
  shows "addService read srv c =
          (Inr (),
           srv\<lparr>services := AList.update (the (service_id c))
                 (buildService (networkSettings srv) c router) (services srv)\<rparr>,
           [GetSettlementRouter (the (hookAddress c))])"
  using assms by (simp add: addService_def Let_def getSettlementRouter_def)

lemma addService_registers:
  assumes "registers read c"
  shows "\<exists>router. read (the (hookAddress c)) = Inr router \<and>
           addService read srv c =
             (Inr (),
              srv\<lparr>services := AList.update (the (service_id c))
                    (buildService (networkSettings srv) c router) (services srv)\<rparr>,
              [GetSettlementRouter (the (hookAddress c))])"
proof -
  from assms obtain router where m: "missingServiceFields c = []"
    and r: "read (the (hookAddress c)) = Inr router"
    by (auto simp: registers_def split: sum.splits)
  from addService_success [of c read router srv] m r show ?thesis by simp
qed

lemma addService_not_registers:
  assumes "\<not> registers read c"
  shows "\<exists>e l. addService read srv c = (Inl e, srv, l)"
  using assms
  by (auto simp: addService_def registers_def Let_def getSettlementRouter_def
      split: sum.splits thrown.splits)

lemma registers_id: "registers read c \<Longrightarrow> service_id c = Some (the (service_id c))"
  by (auto simp: registers_def missingServiceFields_def truthy_def split: option.splits if_splits)

lemma registers_intro:
  "missingServiceFields c = [] \<Longrightarrow> read (the (hookAddress c)) = Inr router \<Longrightarrow> registers read c"
  by (simp add: registers_def)

text \<open>
  C5. When any of the required fields \<open>id\<close>, \<open>hookAddress\<close>, \<open>hookType\<close>, \<open>network\<close> is
  missing (absent, or the empty string), \<open>addService\<close> fails with a ConfigurationError
  whose list of missing fields holds each of the four names exactly when that field is
  missing; the server is unchanged and no ledger call was made.
\<close>

theorem addService_missing_fields:
  assumes "\<not> truthy (service_id c) \<or> \<not> truthy (hookAddress c) \<or> hookType c = None
             \<or> \<not> truthy (network c)"
  shows "addService read srv c =
           (Inl (ConfigurationError
                  (''Missing required service fields: '' @ join '', '' (missingServiceFields c))
                  (Some (missingServiceFields c))), srv, []) \<and>
         (''id'' \<in> set (missingServiceFields c) \<longleftrightarrow> \<not> truthy (service_id c)) \<and>
         (''hookAddress'' \<in> set (missingServiceFields c) \<longleftrightarrow> \<not> truthy (hookAddress c)) \<and>
         (''hookType'' \<in> set (missingServiceFields c) \<longleftrightarrow> hookType c = None) \<and>
         (''network'' \<in> set (missingServiceFields c) \<longleftrightarrow> \<not> truthy (network c))"
proof -
  have ne: "missingServiceFields c \<noteq> []"
    using assms by (auto simp: missingServiceFields_def)
  show ?thesis
    using ne by (simp add: addService_def Let_def set_missingServiceFields)
qed

theorem addService_missing_fields_witness:
  "(\<not> truthy (service_id (nftMintService\<lparr>service_id := None, network := Some []\<rparr>))) \<and>
   addService testnetLedger exampleServer (nftMintService\<lparr>service_id := None, network := Some []\<rparr>) =
     (Inl (ConfigurationError ''Missing required service fields: id, network''
            (Some [''id'', ''network''])), exampleServer, [])"
  using addService_missing_fields
    [of "nftMintService\<lparr>service_id := None, network := Some []\<rparr>" testnetLedger exampleServer]
  by (simp add: truthy_def nftMintService_def missingServiceFields_def)

text \<open>
  When the configuration is complete and the read of the settlement router fails,
  \<open>addService\<close> fails and returns the server as it was, whatever was thrown: the map of
  services, and with it every lookup and the listing, is the one before the call. The
  error is the ContractNotFoundError for the hook address when the message thrown
  contains \<open>call revert\<close> or \<open>CALL_EXCEPTION\<close>, and the NetworkError with the message
  otherwise.
\<close>

lemma addService_read_failure:
  assumes "missingServiceFields c = []" and "read (the (hookAddress c)) = Inl t"
  shows "\<exists>e. addService read srv c =
               (Inl e, srv, [GetSettlementRouter (the (hookAddress c))]) \<and>
             (\<forall>m. t = ErrorMsg m \<longrightarrow>
                e = (if includes_str m ''call revert'' \<or> includes_str m ''CALL_EXCEPTION''
                     then ContractNotFoundError (the (hookAddress c))
                     else NetworkError (''Failed to read settlement router: '' @ m) None None))"
  using assms
  by (cases t) (auto simp: addService_def Let_def getSettlementRouter_def)

lemma addService_reverting:
  "addService revertingLedger (fst (snd (addService testnetLedger exampleServer rewardPointsService)))
       (nftMintService\<lparr>hookAddress := Some ''0x0000000000000000000000000000000000000001''\<rparr>) =
     (Inl (ContractNotFoundError ''0x0000000000000000000000000000000000000001''),
      fst (snd (addService testnetLedger exampleServer rewardPointsService)),
      [GetSettlementRouter ''0x0000000000000000000000000000000000000001''])"
proof -
  let ?c = "nftMintService\<lparr>hookAddress := Some ''0x0000000000000000000000000000000000000001''\<rparr>"
  have m: "missingServiceFields ?c = []"
    by (simp add: missingServiceFields_def nftMintService_def truthy_def)
  have r: "revertingLedger (the (hookAddress ?c)) =
             Inl (ErrorMsg ''missing revert data (code=CALL_EXCEPTION)'')"
    by (simp add: revertingLedger_def callSettlementRouter_def)
  have i: "includes_str ''missing revert data (code=CALL_EXCEPTION)'' ''CALL_EXCEPTION''"
    by (simp add: startsWith_def)
  from addService_read_failure [of ?c revertingLedger
      "ErrorMsg ''missing revert data (code=CALL_EXCEPTION)''"
      "fst (snd (addService testnetLedger exampleServer rewardPointsService))"] i
  show ?thesis
    using m r by auto
qed

lemma badDataMessage_no_call_exception:
  "\<not> includes_str (badDataMessage ''6.0.0'') ''call revert''"
  "\<not> includes_str (badDataMessage ''6.0.0'') ''CALL_EXCEPTION''"
  by (simp_all add: badDataMessage_def startsWith_def)

text \<open>
  C6. A hook address without code. The read of the settlement router fails there with
  the library's BAD_DATA error, whose message names neither \<open>call revert\<close> nor
  \<open>CALL_EXCEPTION\<close>; \<open>addService\<close> fails with the NetworkError that wraps the message,
  not with the ContractNotFoundError, and returns the server as it was, with the record
  registered before and nothing under the new id.
\<close>

theorem addService_no_code:
  "testnetChain ''0x0000000000000000000000000000000000000001'' = NoCode \<and>
   addService testnetLedger (fst (snd (addService testnetLedger exampleServer rewardPointsService)))
       (nftMintService\<lparr>hookAddress := Some ''0x0000000000000000000000000000000000000001''\<rparr>) =
     (Inl (NetworkError (''Failed to read settlement router: '' @ badDataMessage ''6.0.0'') None None),
      fst (snd (addService testnetLedger exampleServer rewardPointsService)),
      [GetSettlementRouter ''0x0000000000000000000000000000000000000001'']) \<and>
   map fst (services (fst (snd (addService testnetLedger exampleServer rewardPointsService)))) =
     [''reward-points'']"
proof -
  let ?c = "nftMintService\<lparr>hookAddress := Some ''0x0000000000000000000000000000000000000001''\<rparr>"
  let ?srv = "fst (snd (addService testnetLedger exampleServer rewardPointsService))"
  have n: "testnetChain ''0x0000000000000000000000000000000000000001'' = NoCode"
    by (simp add: testnetChain_def)
  have m: "missingServiceFields ?c = []"
    by (simp add: missingServiceFields_def nftMintService_def truthy_def)
  have r: "testnetLedger (the (hookAddress ?c)) = Inl (ErrorMsg (badDataMessage ''6.0.0''))"
    by (simp add: testnetLedger_def callSettlementRouter_def n)
  from addService_read_failure [of ?c testnetLedger "ErrorMsg (badDataMessage ''6.0.0'')" ?srv]
    m r badDataMessage_no_call_exception
  have a: "addService testnetLedger ?srv ?c =
      (Inl (NetworkError (''Failed to read settlement router: '' @ badDataMessage ''6.0.0'') None None),
       ?srv, [GetSettlementRouter ''0x0000000000000000000000000000000000000001''])"
    by auto
  have s: "map fst (services ?srv) = [''reward-points'']"
    by (simp add: addService_def missingServiceFields_def truthy_def getSettlementRouter_def
        testnetLedger_def testnetChain_def callSettlementRouter_def rewardPointsService_def
        exampleServer_def Let_def)
  from n a s show ?thesis by simp
qed

subsection \<open>Sequences of calls\<close>

lemma addService_networkSettings:
  "networkSettings (fst (snd (addService read srv c))) = networkSettings srv"
proof (cases "registers read c")
  case True
  from addService_registers [OF True, of srv] show ?thesis by auto
next
  case False
  from addService_not_registers [OF False, of srv] show ?thesis by auto
qed

lemma stored_ok_update:
  "stored_ok ns al \<Longrightarrow> service_id s = Some k \<Longrightarrow> service_usdcAddress s = usdcAddress ns \<Longrightarrow>
   service_chainId s = chainId ns \<Longrightarrow> stored_ok ns (AList.update k s al)"
  unfolding stored_ok_def
  by (induction al) (auto split: if_splits)

lemma addService_stored_ok:
  assumes "stored_ok (networkSettings srv) (services srv)"
  shows "stored_ok (networkSettings srv) (services (fst (snd (addService read srv c))))"
proof (cases "registers read c")
  case True
  from addService_registers [OF True, of srv] registers_id [OF True] assms
  show ?thesis by (auto intro!: stored_ok_update)
next
  case False
  from addService_not_registers [OF False, of srv] assms show ?thesis by auto
qed

lemma addService_distinct:
  assumes "distinct (map fst (services srv))"
  shows "distinct (map fst (services (fst (snd (addService read srv c)))))"
proof (cases "registers read c")
  case True
  from addService_registers [OF True, of srv] assms
  show ?thesis by (auto simp: distinct_update)
next
  case False
  from addService_not_registers [OF False, of srv] assms show ?thesis by auto
qed

lemma addServices_networkSettings:
  "networkSettings (addServices srv calls) = networkSettings srv"
  by (induction srv calls rule: addServices.induct) (simp_all add: addService_networkSettings)

lemma addServices_stored_ok:
  "stored_ok (networkSettings srv) (services srv) \<Longrightarrow>
   stored_ok (networkSettings srv) (services (addServices srv calls))"
proof (induction srv calls rule: addServices.induct)
  case (1 srv)
  then show ?case by simp
next
  case (2 srv read c cs)
  then show ?case
    using addService_stored_ok [of srv read c]
    by (simp add: addService_networkSettings)
qed

lemma addServices_distinct:
  "distinct (map fst (services srv)) \<Longrightarrow> distinct (map fst (services (addServices srv calls)))"
proof (induction srv calls rule: addServices.induct)
  case (1 srv)
  then show ?case by simp
next
  case (2 srv read c cs)
  then show ?case using addService_distinct [of srv read c] by simp
qed

lemma addServices_keys:
  "map fst (services (addServices srv calls)) =
     foldl insertKey (map fst (services srv)) (registeredIds srv calls)"
proof (induction srv calls rule: addServices.induct)
  case (1 srv)
  then show ?case by simp
next
  case (2 srv read c cs)
  show ?case
  proof (cases "registers read c")
    case True
    from addService_registers [OF True, of srv] 2 show ?thesis
      by (auto simp: update_keys insertKey_def)
  next
    case False
    from addService_not_registers [OF False, of srv] 2 show ?thesis by auto
  qed
qed

lemma foldl_insertKey:
  "foldl insertKey ks xs = ks @ filter (\<lambda>x. x \<notin> set ks) (firstOccurrences xs)"
proof (induction xs arbitrary: ks)
  case Nil
  then show ?case by simp
next
  case (Cons x xs)
  show ?case
  proof (cases "x \<in> set ks")
    case True
    then have "filter (\<lambda>y. y \<notin> set ks) (filter (\<lambda>y. y \<noteq> x) (firstOccurrences xs))
             = filter (\<lambda>y. y \<notin> set ks) (firstOccurrences xs)"
      by (auto intro: filter_cong)
    with True Cons show ?thesis by (simp add: insertKey_def)
  next
    case False
    have "filter (\<lambda>y. y \<notin> set (ks @ [x])) (firstOccurrences xs)
        = filter (\<lambda>y. y \<notin> set ks) (filter (\<lambda>y. y \<noteq> x) (firstOccurrences xs))"
      by (auto intro: filter_cong)
    with False Cons show ?thesis by (simp add: insertKey_def)
  qed
qed

lemma stored_ok_ids:
  "stored_ok ns al \<Longrightarrow> map service_id (map snd al) = map Some (map fst al)"
  unfolding stored_ok_def by (induction al) auto

lemma stored_ok_filter:
  "stored_ok ns al \<Longrightarrow>
   filter (\<lambda>s. service_id s = Some k) (map snd al) = map snd (filter (\<lambda>p. fst p = k) al)"
  unfolding stored_ok_def by (induction al) auto

lemma stored_ok_replace:
  "stored_ok ns al \<Longrightarrow>
   map snd (map (\<lambda>(k', v'). if k' = k then (k, v) else (k', v')) al) =
   map (\<lambda>s. if service_id s = Some k then v else s) (map snd al)"
  unfolding stored_ok_def by (induction al) auto

lemma replace_absent:
  "k \<notin> fst ` set al \<Longrightarrow> map (\<lambda>(k', v'). if k' = k then f k' v' else (k', v')) al = al"
  by (induction al) auto

lemma update_in_place:
  "distinct (map fst al) \<Longrightarrow> k \<in> fst ` set al \<Longrightarrow>
   AList.update k v al = map (\<lambda>(k', v'). if k' = k then (k, v) else (k', v')) al"
proof (induction al)
  case Nil
  then show ?case by simp
next
  case (Cons p al)
  show ?case
  proof (cases "fst p = k")
    case True
    with Cons.prems have "k \<notin> fst ` set al" by auto
    then have "map (\<lambda>(k', v'). if k' = k then (k, v) else (k', v')) al = al"
      by (rule replace_absent)
    with True show ?thesis by (cases p) simp
  next
    case False
    with Cons show ?thesis by (cases p) auto
  qed
qed

lemma update_append:
  "k \<notin> fst ` set al \<Longrightarrow> AList.update k v al = al @ [(k, v)]"
  by (induction al) auto

lemma count_key:
  "distinct (map fst al) \<Longrightarrow> k \<in> fst ` set al \<Longrightarrow> length (filter (\<lambda>p. fst p = k) al) = 1"
proof (induction al)
  case Nil
  then show ?case by simp
next
  case (Cons p al)
  show ?case
  proof (cases "fst p = k")
    case True
    with Cons.prems have "k \<notin> fst ` set al" by auto
    then have "filter (\<lambda>p. fst p = k) al = []"
      by (auto simp: filter_empty_conv)
    with True show ?thesis by simp
  next
    case False
    with Cons show ?thesis by auto
  qed
qed

lemma createX402Server_fresh:
  assumes "createX402Server sc = Inr srv0"
  shows "services srv0 = []"
    and "\<exists>nc. NETWORK_CONFIGS (the (server_network sc)) = Some nc \<and>
           usdcAddress (networkSettings srv0) = usdcAddress nc \<and>
           chainId (networkSettings srv0) = chainId nc"
  using assms
  by (auto simp: createX402Server_def getConfig_def getDefaultConfig_def
      split: option.splits if_splits)

lemma createX402Server_example: "createX402Server exampleServerConfig = Inr exampleServer"
  by (simp add: createX402Server_def exampleServerConfig_def exampleServer_def validateConfig_def
      truthy_def isValidNetwork_def getConfig_def getDefaultConfig_def NETWORK_CONFIGS_def)

lemmas registry_eval =
  listServices_def getService_def addService_def missingServiceFields_def truthy_def
  getSettlementRouter_def testnetLedger_def testnetChain_def callSettlementRouter_def
  nftMintService_def rewardPointsService_def
  spoofedService_def exampleServer_def buildService_def X402ServiceConfig.extend_def
  X402ServiceConfig.truncate_def X402Service.fields_def Let_def

text \<open>
  C7. On a server built by the constructor, after any sequence of \<open>addService\<close> calls
  every stored record has its \<open>usdcAddress\<close> and \<open>chainId\<close> equal to those of the
  server's network settings, which are those of the network table for the server's
  network, whatever the caller's object carried; and a further successful call stores
  exactly the record built from its configuration under its id, leaves every other id
  as it was, and leaves one record with that id in the listing, whether or not the id
  was registered before.
\<close>

theorem addService_network_fields:
  assumes "createX402Server sc = Inr srv0"
  shows "(\<forall>s \<in> set (listServices (addServices srv0 calls)).
            service_usdcAddress s = usdcAddress (networkSettings srv0) \<and>
            service_chainId s = chainId (networkSettings srv0)) \<and>
         (\<exists>nc. NETWORK_CONFIGS (the (server_network sc)) = Some nc \<and>
            usdcAddress (networkSettings srv0) = usdcAddress nc \<and>
            chainId (networkSettings srv0) = chainId nc) \<and>
         (\<forall>read c router.
            missingServiceFields c = [] \<and> read (the (hookAddress c)) = Inr router \<longrightarrow>
            (let srv = addServices srv0 calls;
                 srv' = fst (snd (addService read srv c))
             in fst (addService read srv c) = Inr () \<and>
                getService srv' (the (service_id c)) =
                  Some (buildService (networkSettings srv0) c router) \<and>
                (\<forall>j. j \<noteq> the (service_id c) \<longrightarrow> getService srv' j = getService srv j) \<and>
                length (filter (\<lambda>s. service_id s = service_id c) (listServices srv')) = 1))"
proof -
  let ?srv = "addServices srv0 calls"
  have fresh: "services srv0 = []"
    using assms by (rule createX402Server_fresh)
  then have ok0: "stored_ok (networkSettings srv0) (services srv0)"
    by (simp add: stored_ok_def)
  have ok: "stored_ok (networkSettings srv0) (services ?srv)"
    using ok0 by (rule addServices_stored_ok)
  have ns: "networkSettings ?srv = networkSettings srv0"
    by (rule addServices_networkSettings)
  have dist: "distinct (map fst (services ?srv))"
    using fresh by (intro addServices_distinct) simp
  have 1: "\<forall>s \<in> set (listServices ?srv).
            service_usdcAddress s = usdcAddress (networkSettings srv0) \<and>
            service_chainId s = chainId (networkSettings srv0)"
    using ok by (auto simp: listServices_def stored_ok_def)
  have 3: "fst (addService read ?srv c) = Inr () \<and>
           getService (fst (snd (addService read ?srv c))) (the (service_id c)) =
             Some (buildService (networkSettings srv0) c router) \<and>
           (\<forall>j. j \<noteq> the (service_id c) \<longrightarrow>
              getService (fst (snd (addService read ?srv c))) j = getService ?srv j) \<and>
           length (filter (\<lambda>s. service_id s = service_id c)
              (listServices (fst (snd (addService read ?srv c))))) = 1"
    if m: "missingServiceFields c = []" and r: "read (the (hookAddress c)) = Inr router"
    for read and c :: "'b X402ServiceConfig_scheme" and router
  proof -
    let ?k = "the (service_id c)"
    let ?new = "buildService (networkSettings srv0) c router"
    let ?al = "AList.update ?k ?new (services ?srv)"
    have a: "addService read ?srv c =
          (Inr (), ?srv\<lparr>services := ?al\<rparr>, [GetSettlementRouter (the (hookAddress c))])"
      using addService_success [of c read router ?srv] m r by (simp add: ns)
    have idc: "service_id c = Some ?k"
      using registers_id [of read c] registers_intro [of c read router] m r by blast
    have ok': "stored_ok (networkSettings srv0) ?al"
      using ok idc by (intro stored_ok_update) simp_all
    have dist': "distinct (map fst ?al)"
      using dist by (simp add: distinct_update)
    have mem: "?k \<in> fst ` set ?al"
      by (simp add: dom_update)
    have "length (filter (\<lambda>s. service_id s = Some ?k) (map snd ?al)) = 1"
      using count_key [OF dist' mem] by (simp add: stored_ok_filter [OF ok'])
    then show ?thesis
      using a idc by (simp add: getService_def listServices_def update_conv')
  qed
  show ?thesis
    using 1 createX402Server_fresh(2) [OF assms] 3 by (simp add: Let_def)
qed

theorem addService_network_fields_witness:
  "createX402Server exampleServerConfig = Inr exampleServer \<and>
   map (\<lambda>s. (service_id s, service_usdcAddress s, service_chainId s))
     (listServices (addServices exampleServer
        [(testnetLedger, spoofedService),
         (testnetLedger, spoofedService\<lparr>title := ''Again'', service_chainId := 25\<rparr>)])) =
     [(Some ''nft-mint'', ''0xc01efAaF7C5C61bEbFAeb358E1161b537b8bC0e0'', 338)] \<and>
   map title
     (listServices (addServices exampleServer
        [(testnetLedger, spoofedService),
         (testnetLedger, spoofedService\<lparr>title := ''Again'', service_chainId := 25\<rparr>)])) =
     [''Again'']"
  using addService_network_fields [OF createX402Server_example,
      of "[(testnetLedger, spoofedService),
           (testnetLedger, spoofedService\<lparr>title := ''Again'', service_chainId := 25\<rparr>)]"]
  by (simp add: createX402Server_example registry_eval)

text \<open>
  C10. On a server built by the constructor, after any sequence of \<open>addService\<close> calls
  the listing holds one record for each id that was registered, in the order in which
  the ids were first registered; and a further successful call appends its record when
  its id is new and otherwise puts it where the record of that id stood, every other
  record keeping its place.
\<close>

theorem listServices_registration_order:
  assumes "createX402Server sc = Inr srv0"
  shows "map service_id (listServices (addServices srv0 calls)) =
           map Some (firstOccurrences (registeredIds srv0 calls)) \<and>
         (\<forall>read c router.
            missingServiceFields c = [] \<and> read (the (hookAddress c)) = Inr router \<longrightarrow>
            (let srv = addServices srv0 calls;
                 srv' = fst (snd (addService read srv c));
                 new = buildService (networkSettings srv) c router
             in listServices srv' =
                  (if getService srv (the (service_id c)) = None
                   then listServices srv @ [new]
                   else map (\<lambda>s. if service_id s = service_id c then new else s)
                          (listServices srv))))"
proof -
  let ?srv = "addServices srv0 calls"
  have fresh: "services srv0 = []"
    using assms by (rule createX402Server_fresh)
  then have ok0: "stored_ok (networkSettings srv0) (services srv0)"
    by (simp add: stored_ok_def)
  have ok: "stored_ok (networkSettings srv0) (services ?srv)"
    using ok0 by (rule addServices_stored_ok)
  have dist: "distinct (map fst (services ?srv))"
    using fresh by (intro addServices_distinct) simp
  have "map fst (services ?srv) = firstOccurrences (registeredIds srv0 calls)"
    by (simp add: addServices_keys foldl_insertKey fresh)
  then have 1: "map service_id (listServices ?srv) =
                  map Some (firstOccurrences (registeredIds srv0 calls))"
    using stored_ok_ids [OF ok] by (simp add: listServices_def)
  have 2: "listServices (fst (snd (addService read ?srv c))) =
             (if getService ?srv (the (service_id c)) = None
              then listServices ?srv @ [buildService (networkSettings ?srv) c router]
              else map (\<lambda>s. if service_id s = service_id c
                              then buildService (networkSettings ?srv) c router else s)
                     (listServices ?srv))"
    if m: "missingServiceFields c = []" and r: "read (the (hookAddress c)) = Inr router"
    for read and c :: "'b X402ServiceConfig_scheme" and router
  proof -
    let ?k = "the (service_id c)"
    let ?new = "buildService (networkSettings ?srv) c router"
    have a: "services (fst (snd (addService read ?srv c))) =
               AList.update ?k ?new (services ?srv)"
      using addService_success [of c read router ?srv] m r by simp
    have idc: "service_id c = Some ?k"
      using registers_id [of read c] registers_intro [of c read router] m r by blast
    show ?thesis
    proof (cases "getService ?srv ?k")
      case None
      then have "?k \<notin> fst ` set (services ?srv)"
        by (simp add: getService_def map_of_eq_None_iff)
      then show ?thesis
        using None a by (simp add: listServices_def update_append)
    next
      case (Some old)
      then have "?k \<in> fst ` set (services ?srv)"
        by (metis getService_def map_of_eq_None_iff option.distinct(1))
      then have "AList.update ?k ?new (services ?srv) =
                 map (\<lambda>(k', v'). if k' = ?k then (?k, ?new) else (k', v')) (services ?srv)"
        using dist by (intro update_in_place)
      then show ?thesis
        using Some a idc stored_ok_replace [OF ok, of ?k ?new]
        by (simp add: listServices_def)
    qed
  qed
  show ?thesis
    using 1 2 by (simp add: Let_def)
qed

theorem listServices_registration_order_witness:
  "createX402Server exampleServerConfig = Inr exampleServer \<and>
   map title
     (listServices (addServices exampleServer
        [(testnetLedger, nftMintService), (testnetLedger, rewardPointsService),
         (testnetLedger, nftMintService\<lparr>title := ''NFT Mint Service, second edition''\<rparr>)])) =
     [''NFT Mint Service, second edition'', ''Reward Points Service''] \<and>
   map service_id
     (listServices (addServices exampleServer
        [(testnetLedger, nftMintService), (testnetLedger, rewardPointsService),
         (testnetLedger, nftMintService\<lparr>title := ''NFT Mint Service, second edition''\<rparr>)])) =
     [Some ''nft-mint'', Some ''reward-points'']"
  using listServices_registration_order [OF createX402Server_example,
      of "[(testnetLedger, nftMintService), (testnetLedger, rewardPointsService),
           (testnetLedger, nftMintService\<lparr>title := ''NFT Mint Service, second edition''\<rparr>)]"]
  by (simp add: createX402Server_example registry_eval)

section \<open>Hook data codec\<close>

text \<open>
  C3. On the empty payload, written \<open>0x\<close> or as the empty string, \<open>decode\<close> fails for
  the kinds NftMint and RewardPoints and returns the TransferSplit value without splits
  for the kind TransferSplit.
\<close>

theorem decode_empty_payload:
  "decode NftMint ''0x'' = Inl (Error ''NFT mint hookData cannot be empty'') \<and>
   decode NftMint [] = Inl (Error ''NFT mint hookData cannot be empty'') \<and>
   decode RewardPoints ''0x'' = Inl (Error ''Reward points hookData cannot be empty'') \<and>
   decode RewardPoints [] = Inl (Error ''Reward points hookData cannot be empty'') \<and>
   decode TransferSplit ''0x'' = Inr (TransferSplitHookData None) \<and>
   decode TransferSplit [] = Inr (TransferSplitHookData None)"
  by (simp add: decode_def)

lemma isAddress_plain:
  "isHexAddressShape a \<Longrightarrow> startsWith a ''0x'' \<Longrightarrow> \<not> isMixedCase a \<Longrightarrow> isAddress a"
  by (simp add: isAddress_def getAddress_def Let_def)

subsection \<open>Sums of doubles\<close>

lemma halvings_le: "x < 2 ^ Suc k \<Longrightarrow> halvings x \<le> k"
proof (induction k arbitrary: x)
  case 0
  then show ?case by (simp add: halvings.simps)
next
  case (Suc k)
  show ?case
  proof (cases "2 \<le> x")
    case True
    from Suc.prems have "x / 2 < 2 ^ Suc k" by simp
    from Suc.IH [OF this] True show ?thesis by (simp add: halvings.simps [of x])
  next
    case False
    then show ?thesis by (simp add: halvings.simps [of x])
  qed
qed

lemma halvings_eq: "2 ^ k \<le> x \<Longrightarrow> x < 2 ^ Suc k \<Longrightarrow> halvings x = k"
proof (induction k arbitrary: x)
  case 0
  then show ?case by (simp add: halvings.simps)
next
  case (Suc k)
  have t: "2 \<le> x"
  proof -
    have "(1::rat) \<le> 2 ^ k" by simp
    then have "(2::rat) \<le> 2 ^ Suc k" by simp
    from this Suc.prems(1) show ?thesis by (rule order_trans)
  qed
  from Suc.prems have "2 ^ k \<le> x / 2" "x / 2 < 2 ^ Suc k" by simp_all
  from Suc.IH [OF this] t show ?case by (simp add: halvings.simps [of x])
qed

lemma doublings_ge1: "1 \<le> x \<Longrightarrow> doublings x = 0"
  by (simp add: doublings.simps)

lemma roundHalfEven_int [simp]: "roundHalfEven (of_int z) = z"
  by (simp add: roundHalfEven_def)

text \<open>A safe integer is a double: rounding leaves it as it is.\<close>

lemma roundDouble_safe:
  assumes "\<bar>n\<bar> \<le> 9007199254740991"
  shows "roundDouble (of_int n) = Finite (of_int n)"
proof (cases "n = 0")
  case True
  then show ?thesis by (simp add: roundDouble_def)
next
  case False
  let ?a = "\<bar>of_int n :: rat\<bar>"
  have abs: "?a = of_int \<bar>n\<bar>" by simp
  have one: "1 \<le> ?a"
    using False unfolding abs by (simp add: of_int_1_le_iff [symmetric] del: of_int_1_le_iff)
  have "of_int \<bar>n\<bar> < (2::rat) ^ Suc 52"
    using assms by (simp add: of_int_less_numeral_iff [symmetric] del: of_int_less_numeral_iff)
  then have h: "halvings ?a \<le> 52" unfolding abs by (rule halvings_le)
  define k where "k = 52 - halvings ?a"
  have e: "max (int (halvings ?a) - int (doublings ?a)) (- 1022) - 52 = - int k"
    using h by (simp add: doublings_ge1 [OF one] k_def)
  have p: "pow2 (- int k) = 1 / 2 ^ k"
    by (cases "k = 0") (simp_all add: pow2_def)
  have m: "(of_int n :: rat) / pow2 (- int k) = of_int (n * 2 ^ k)"
    by (simp add: p)
  have y: "of_int (roundHalfEven (of_int n / pow2 (- int k))) * pow2 (- int k) = (of_int n :: rat)"
    unfolding m roundHalfEven_int by (simp add: p)
  have small: "\<not> (2 ^ 1024 \<le> ?a)"
  proof -
    have "of_int \<bar>n\<bar> < (2::rat) ^ 1024"
      using assms by (simp add: of_int_less_numeral_iff [symmetric] del: of_int_less_numeral_iff)
    then show ?thesis unfolding abs by simp
  qed
  show ?thesis
    using False small by (simp only: roundDouble_def Let_def e y of_int_eq_0_iff if_False)
qed

lemma safePartialSums_start: "safePartialSums a bs \<Longrightarrow> \<bar>a\<bar> \<le> 9007199254740991"
  by (cases bs) simp_all

lemma foldl_jsAdd_safe:
  "safePartialSums a bs \<Longrightarrow>
   foldl jsAdd (Finite (of_int a)) (map (\<lambda>b. Finite (of_int b)) bs) =
     Finite (of_int (a + sum_list bs))"
proof (induction bs arbitrary: a)
  case Nil
  then show ?case by simp
next
  case (Cons b bs)
  then have s: "safePartialSums (a + b) bs" by simp
  from safePartialSums_start [OF s] have "roundDouble (of_int (a + b)) = Finite (of_int (a + b))"
    by (rule roundDouble_safe)
  then have "jsAdd (Finite (of_int a)) (Finite (of_int b)) = Finite (of_int (a + b))"
    by simp
  with Cons.IH [OF s] show ?case by (simp add: add.assoc)
qed

lemma isInteger_Finite: "isInteger v \<Longrightarrow> v = Finite (of_int (integerOf v))"
  by (cases v) (simp_all add: isInteger_def integerOf_def)

lemma doubleSum_safe:
  assumes "\<forall>s \<in> set xs. isInteger (bips s)"
    and "safePartialSums 0 (map (\<lambda>s. integerOf (bips s)) xs)"
  shows "doubleSum (map bips xs) = Finite (of_int (sum_list (map (\<lambda>s. integerOf (bips s)) xs)))"
proof -
  have eq: "map bips xs = map (\<lambda>b. Finite (of_int b)) (map (\<lambda>s. integerOf (bips s)) xs)"
    using assms(1) by (induction xs) (simp_all add: isInteger_Finite [symmetric])
  have "doubleSum (map bips xs) =
      foldl jsAdd (Finite (of_int 0)) (map (\<lambda>b. Finite (of_int b)) (map (\<lambda>s. integerOf (bips s)) xs))"
    unfolding doubleSum_def by (subst eq) simp
  also have "\<dots> = Finite (of_int (0 + sum_list (map (\<lambda>s. integerOf (bips s)) xs)))"
    using assms(2) by (rule foldl_jsAdd_safe)
  finally show ?thesis by simp
qed

lemma validate_doubleSum:
  "validate p \<longleftrightarrow>
     (case p of
        NFTMintHookData a \<Rightarrow> isAddress a
      | RewardPointsHookData a \<Rightarrow> isAddress a
      | TransferSplitHookData None \<Rightarrow> True
      | TransferSplitHookData (Some ss) \<Rightarrow>
          ss = [] \<or>
          ((\<forall>s \<in> set ss. isAddress (recipient s)) \<and> doubleSum (map bips ss) = Finite 10000))"
  by (auto simp: validate_def doubleSum_def foldl_map list_all_iff Let_def
      split: HookDataParams.splits option.splits)

text \<open>The doubles next to 2 to the 53: the odd integer above it is not one of them and
  rounds to it.\<close>

lemma roundDouble_exponent:
  assumes "2 ^ k \<le> \<bar>x\<bar>" and "\<bar>x\<bar> < 2 ^ Suc k"
  shows "roundDouble x =
     (let y = of_int (roundHalfEven (x / pow2 (int k - 52))) * pow2 (int k - 52)
      in if 2 ^ 1024 \<le> \<bar>y\<bar> then (if 0 < x then PosInfinity else NegInfinity)
         else Finite y)"
proof -
  have "(1::rat) \<le> 2 ^ k" by simp
  from this assms(1) have one: "1 \<le> \<bar>x\<bar>" by (rule order_trans)
  then have nz: "x \<noteq> 0" by auto
  have e: "max (int (halvings \<bar>x\<bar>) - int (doublings \<bar>x\<bar>)) (- 1022) - 52 = int k - 52"
    by (simp add: halvings_eq [OF assms] doublings_ge1 [OF one])
  show ?thesis
    using nz by (simp only: roundDouble_def Let_def e if_False)
qed

lemma two_53_small: "\<not> (2 ^ 1024 \<le> \<bar>9007199254740992 :: rat\<bar>)"
proof -
  have "(9007199254740992 :: rat) = 2 ^ 53" by simp
  moreover have "(2::rat) ^ 53 < 2 ^ 1024" by (rule power_strict_increasing) simp_all
  ultimately show ?thesis by simp
qed

lemma roundDouble_two_53: "roundDouble 9007199254740992 = Finite 9007199254740992"
proof -
  have y: "of_int (roundHalfEven (9007199254740992 / pow2 (int 53 - 52))) * pow2 (int 53 - 52) =
           (9007199254740992 :: rat)"
    by (simp add: pow2_def roundHalfEven_def Let_def)
  from roundDouble_exponent [of 53 9007199254740992] show ?thesis
    unfolding Let_def y using two_53_small by simp
qed

lemma roundDouble_two_53_plus_1: "roundDouble 9007199254740993 = Finite 9007199254740992"
proof -
  have f: "\<lfloor>9007199254740993 / 2 :: rat\<rfloor> = 4503599627370496"
    by (rule floor_unique) simp_all
  have y: "of_int (roundHalfEven (9007199254740993 / pow2 (int 53 - 52))) * pow2 (int 53 - 52) =
           (9007199254740992 :: rat)"
    by (simp add: pow2_def roundHalfEven_def Let_def f)
  from roundDouble_exponent [of 53 9007199254740993] show ?thesis
    unfolding Let_def y using two_53_small by simp
qed

lemma roundDouble_10000: "roundDouble 10000 = Finite 10000"
  using roundDouble_safe [of 10000] by simp

lemma roundDouble_9999: "roundDouble 9999 = Finite 9999"
  using roundDouble_safe [of 9999] by simp

lemma isAddress_examples:
  "isAddress ''0x0000000000000000000000000000000000000001''"
  "isAddress ''0x0000000000000000000000000000000000000002''"
  "isAddress ''0x0000000000000000000000000000000000000003''"
  by (rule isAddress_plain,
      simp_all add: isHexAddressShape_def startsWith_def isHexDigit_def isMixedCase_def)+

text \<open>
  C2. \<open>validate p\<close> is true exactly when \<open>p\<close> is an NftMint or RewardPoints value whose
  address is well formed (\<open>isAddress\<close>), or a TransferSplit value whose splits are absent
  or empty, or a TransferSplit value whose recipients are all well formed and whose
  bips, added as doubles from 0 in the order of the list, give 10000. When every bips is
  an integer and every sum of a prefix of the list is a safe integer, no sum is rounded,
  and the last condition is that the bips add up to exactly 10000.
\<close>

theorem validate_iff:
  "(validate p \<longleftrightarrow>
      (case p of
         NFTMintHookData a \<Rightarrow> isAddress a
       | RewardPointsHookData a \<Rightarrow> isAddress a
       | TransferSplitHookData None \<Rightarrow> True
       | TransferSplitHookData (Some ss) \<Rightarrow>
           ss = [] \<or>
           ((\<forall>s \<in> set ss. isAddress (recipient s)) \<and>
            doubleSum (map bips ss) = Finite 10000))) \<and>
   ((\<forall>s \<in> set xs. isInteger (bips s)) \<and>
    safePartialSums 0 (map (\<lambda>s. integerOf (bips s)) xs) \<longrightarrow>
      (validate (TransferSplitHookData (Some xs)) \<longleftrightarrow>
         xs = [] \<or>
         ((\<forall>s \<in> set xs. isAddress (recipient s)) \<and>
          sum_list (map (\<lambda>s. integerOf (bips s)) xs) = 10000)))"
proof (intro conjI impI)
  show "validate p \<longleftrightarrow>
      (case p of
         NFTMintHookData a \<Rightarrow> isAddress a
       | RewardPointsHookData a \<Rightarrow> isAddress a
       | TransferSplitHookData None \<Rightarrow> True
       | TransferSplitHookData (Some ss) \<Rightarrow>
           ss = [] \<or>
           ((\<forall>s \<in> set ss. isAddress (recipient s)) \<and>
            doubleSum (map bips ss) = Finite 10000))"
    by (rule validate_doubleSum)
next
  assume a: "(\<forall>s \<in> set xs. isInteger (bips s)) \<and>
    safePartialSums 0 (map (\<lambda>s. integerOf (bips s)) xs)"
  then have "doubleSum (map bips xs) =
      Finite (of_int (sum_list (map (\<lambda>s. integerOf (bips s)) xs)))"
    by (simp add: doubleSum_safe)
  then show "validate (TransferSplitHookData (Some xs)) \<longleftrightarrow>
         xs = [] \<or>
         ((\<forall>s \<in> set xs. isAddress (recipient s)) \<and>
          sum_list (map (\<lambda>s. integerOf (bips s)) xs) = 10000)"
    by (simp add: validate_doubleSum)
qed

theorem validate_iff_witness:
  "validate (TransferSplitHookData (Some
     [\<lparr>recipient = ''0x0000000000000000000000000000000000000001'', bips = Finite 5000\<rparr>,
      \<lparr>recipient = ''0x0000000000000000000000000000000000000002'', bips = Finite 5000\<rparr>])) \<and>
   \<not> validate (TransferSplitHookData (Some
     [\<lparr>recipient = ''0x0000000000000000000000000000000000000001'', bips = Finite 5000\<rparr>,
      \<lparr>recipient = ''0x0000000000000000000000000000000000000002'', bips = Finite 4999\<rparr>]))"
  using isAddress_examples
    validate_iff [of "TransferSplitHookData None"
      "[\<lparr>recipient = ''0x0000000000000000000000000000000000000001'', bips = Finite 5000\<rparr>,
        \<lparr>recipient = ''0x0000000000000000000000000000000000000002'', bips = Finite 5000\<rparr>]"]
    validate_iff [of "TransferSplitHookData None"
      "[\<lparr>recipient = ''0x0000000000000000000000000000000000000001'', bips = Finite 5000\<rparr>,
        \<lparr>recipient = ''0x0000000000000000000000000000000000000002'', bips = Finite 4999\<rparr>]"]
  by (simp add: isInteger_def integerOf_def)

text \<open>The sum is a sum of doubles: after 2 to the 53, adding 1 is lost, so these bips,
  which add up to 10001, pass, and with one less in the last, where they add up to
  10000, they do not.\<close>

theorem validate_rounded_sum:
  "validate (TransferSplitHookData (Some
     [\<lparr>recipient = ''0x0000000000000000000000000000000000000001'', bips = Finite 9007199254740992\<rparr>,
      \<lparr>recipient = ''0x0000000000000000000000000000000000000002'', bips = Finite 1\<rparr>,
      \<lparr>recipient = ''0x0000000000000000000000000000000000000003'',
       bips = Finite (- 9007199254730992)\<rparr>])) \<and>
   (9007199254740992 + 1 + (- 9007199254730992) :: rat) = 10001 \<and>
   \<not> validate (TransferSplitHookData (Some
     [\<lparr>recipient = ''0x0000000000000000000000000000000000000001'', bips = Finite 9007199254740992\<rparr>,
      \<lparr>recipient = ''0x0000000000000000000000000000000000000002'', bips = Finite 1\<rparr>,
      \<lparr>recipient = ''0x0000000000000000000000000000000000000003'',
       bips = Finite (- 9007199254730993)\<rparr>])) \<and>
   (9007199254740992 + 1 + (- 9007199254730993) :: rat) = 10000"
  using isAddress_examples
  by (simp add: validate_def roundDouble_two_53 roundDouble_two_53_plus_1 roundDouble_10000
      roundDouble_9999)

section \<open>Decimal amounts\<close>

lemma not_digit_dot [simp]: "\<not> isDigit CHR ''.''" "\<not> isDigit CHR ''-''"
  by (simp_all add: isDigit_def)

lemma takeWhile_digits:
  "list_all isDigit w \<Longrightarrow> rest = [] \<or> \<not> isDigit (hd rest) \<Longrightarrow> takeWhile isDigit (w @ rest) = w"
  by (induction w) (auto simp: neq_Nil_conv takeWhile_eq_Nil_iff dropWhile_eq_self_iff)

lemma dropWhile_digits:
  "list_all isDigit w \<Longrightarrow> rest = [] \<or> \<not> isDigit (hd rest) \<Longrightarrow> dropWhile isDigit (w @ rest) = rest"
  by (induction w) (auto simp: neq_Nil_conv takeWhile_eq_Nil_iff dropWhile_eq_self_iff)

lemma parseUnits_form:
  assumes w: "list_all isDigit w" and f: "list_all isDigit f"
    and ne: "w \<noteq> [] \<or> f \<noteq> []"
    and sign: "sign = [] \<or> sign = ''-''"
    and dot: "dot = ''.'' \<or> (dot = [] \<and> f = [])"
  shows "parseUnits (sign @ w @ dot @ f) d =
           (if \<not> list_all (\<lambda>c. c = CHR ''0'') (drop d f) then
              Inl (Error ''too many decimals for format'')
            else if fitsSigned512 (fixedValue (sign \<noteq> []) w f d)
            then Inr (fixedValue (sign \<noteq> []) w f d)
            else Inl (Error ''overflow''))"
proof -
  let ?v = "sign @ w @ dot @ f"
  have neg: "startsWith ?v ''-'' = (sign \<noteq> [])"
  proof (cases "sign = []")
    case True
    show ?thesis
    proof (cases w)
      case Nil
      with True dot ne show ?thesis by (auto simp: startsWith_def)
    next
      case (Cons c cs)
      with w have "isDigit c" by simp
      then have "c \<noteq> CHR ''-''" by auto
      with True Cons show ?thesis by (simp add: startsWith_def)
    qed
  next
    case False
    with sign show ?thesis by (auto simp: startsWith_def)
  qed
  have r0: "(if sign \<noteq> [] then drop 1 ?v else ?v) = w @ dot @ f"
    using sign by auto
  have hd: "dot @ f = [] \<or> \<not> isDigit (hd (dot @ f))"
    using dot by auto
  have whole: "takeWhile isDigit (w @ dot @ f) = w"
    using takeWhile_digits [OF w hd] .
  have r1: "dropWhile isDigit (w @ dot @ f) = dot @ f"
    using dropWhile_digits [OF w hd] .
  have r2: "(if startsWith (dot @ f) ''.'' then drop 1 (dot @ f) else dot @ f) = f"
    using dot by (auto simp: startsWith_def)
  have dec: "takeWhile isDigit f = f" "dropWhile isDigit f = []"
    using f by (simp_all add: list_all_iff)
  have len: "(length w + length f = 0) = False"
    using ne by auto
  show ?thesis
    unfolding parseUnits_def Let_def neg r0 whole r1 r2 dec len fixedValue_def
    by simp
qed

lemma replicate_numeral: "replicate (numeral k) x = x # replicate (pred_numeral k) x"
  by (simp add: numeral_eq_Suc)

lemma parseUnits_Inr_form:
  assumes "parseUnits v d = Inr x"
  shows "\<exists>sign w dot f. v = sign @ w @ dot @ f \<and> (sign = [] \<or> sign = ''-'') \<and>
           (dot = ''.'' \<or> (dot = [] \<and> f = [])) \<and> list_all isDigit w \<and> list_all isDigit f \<and>
           (w \<noteq> [] \<or> f \<noteq> []) \<and> list_all (\<lambda>c. c = CHR ''0'') (drop d f) \<and>
           x = fixedValue (sign \<noteq> []) w f d"
proof -
  define sign where "sign = (if startsWith v ''-'' then ''-'' else [])"
  define r0 where "r0 = (if startsWith v ''-'' then drop 1 v else v)"
  define w where "w = takeWhile isDigit r0"
  define r1 where "r1 = dropWhile isDigit r0"
  define dot where "dot = (if startsWith r1 ''.'' then ''.'' else [])"
  define r2 where "r2 = (if startsWith r1 ''.'' then drop 1 r1 else r1)"
  define f where "f = takeWhile isDigit r2"
  define r3 where "r3 = dropWhile isDigit r2"
  have v: "v = sign @ r0"
    by (cases v) (auto simp: sign_def r0_def startsWith_def)
  have r0: "r0 = w @ r1"
    by (simp add: w_def r1_def)
  have r1: "r1 = dot @ r2"
    by (cases r1) (auto simp: dot_def r2_def startsWith_def)
  have r2: "r2 = f @ r3"
    by (simp add: f_def r3_def)
  have dw: "list_all isDigit w" and df: "list_all isDigit f"
    by (auto simp: w_def f_def list_all_iff dest: set_takeWhileD)
  have r1hd: "r1 = [] \<or> \<not> isDigit (hd r1)"
    unfolding r1_def using hd_dropWhile [of isDigit r0] by auto
  have eq: "parseUnits v d =
      (if r3 \<noteq> [] \<or> length w + length f = 0 then
         Inl (Error ''invalid FixedNumber string value'')
       else if \<not> list_all (\<lambda>c. c = CHR ''0'') (drop d f) then
         Inl (Error ''too many decimals for format'')
       else if fitsSigned512 (fixedValue (startsWith v ''-'') w f d)
       then Inr (fixedValue (startsWith v ''-'') w f d)
       else Inl (Error ''overflow''))"
    unfolding parseUnits_def Let_def fixedValue_def r3_def f_def r2_def r1_def w_def r0_def
    by (rule refl)
  from assms have ok: "r3 = []" "w \<noteq> [] \<or> f \<noteq> []"
    "list_all (\<lambda>c. c = CHR ''0'') (drop d f)"
    "x = fixedValue (startsWith v ''-'') w f d"
    unfolding eq by (auto split: if_splits)
  have nodot: "f = []" if "dot = []"
  proof -
    from that have "r2 = r1"
      by (auto simp: dot_def r2_def split: if_splits)
    with r1hd show ?thesis
      by (auto simp: f_def takeWhile_eq_Nil_iff)
  qed
  have dotc: "dot = ''.'' \<or> (dot = [] \<and> f = [])"
    using nodot by (auto simp: dot_def)
  have sg: "(sign \<noteq> []) = startsWith v ''-''"
    by (simp add: sign_def)
  have vv: "v = sign @ w @ dot @ f"
    using v r0 r1 r2 ok(1) by simp
  have ss: "sign = [] \<or> sign = ''-''"
    by (simp add: sign_def)
  have xx: "x = fixedValue (sign \<noteq> []) w f d"
    using ok(4) sg by simp
  show ?thesis
    apply (rule exI [of _ sign])
    apply (rule exI [of _ w])
    apply (rule exI [of _ dot])
    apply (rule exI [of _ f])
    using vv ss dotc dw df ok(2) ok(3) xx
    apply blast
    done
qed

lemma fits_small: "\<bar>x\<bar> < 2 ^ 64 \<Longrightarrow> fitsSigned512 x"
proof -
  assume a: "\<bar>x\<bar> < 2 ^ 64"
  have "(2::int) ^ 64 \<le> 2 ^ 511"
    by (rule power_increasing) simp_all
  with a show ?thesis
    unfolding fitsSigned512_def by linarith
qed

lemma parseUnits_tenth: "parseUnits ''0.1'' 6 = Inr 100000"
proof -
  have v: "fixedValue False ''0'' ''1'' 6 = 100000"
    by (simp add: fixedValue_def decimalToNat_def decimalDigitValue_def replicate_numeral)
  have "fitsSigned512 100000"
    by (rule fits_small) simp
  with parseUnits_form [of "''0''" "''1''" "[]" "''.''" 6] v show ?thesis
    by (simp add: isDigit_def)
qed

lemma parseUnits_seven_digits: "parseUnits ''0.0000001'' 6 = Inl (Error ''too many decimals for format'')"
  using parseUnits_form [of "''0''" "''0000001''" "[]" "''.''" 6]
  by (simp add: isDigit_def)

lemma parseUnits_trailing_zero: "parseUnits ''1.0000000'' 6 = Inr 1000000"
proof -
  have v: "fixedValue False ''1'' ''0000000'' 6 = 1000000"
    by (simp add: fixedValue_def decimalToNat_def decimalDigitValue_def replicate_numeral)
  have "fitsSigned512 1000000"
    by (rule fits_small) simp
  with parseUnits_form [of "''1''" "''0000000''" "[]" "''.''" 6] v show ?thesis
    by (simp add: isDigit_def)
qed

lemma parseUnits_zero: "parseUnits ''0'' 6 = Inr 0"
proof -
  have v: "fixedValue False ''0'' [] 6 = 0"
    by (simp add: fixedValue_def decimalToNat_def decimalDigitValue_def replicate_numeral)
  have "fitsSigned512 0"
    by (rule fits_small) simp
  with parseUnits_form [of "''0''" "[]" "[]" "[]" 6] v show ?thesis
    by (simp add: isDigit_def)
qed

lemma parseUnits_too_many:
  assumes "list_all isDigit w" "list_all isDigit f" "sign = [] \<or> sign = ''-''"
    and "\<exists>c \<in> set (drop 6 f). c \<noteq> CHR ''0''"
  shows "parseUnits (sign @ w @ ''.'' @ f) 6 = Inl (Error ''too many decimals for format'')"
proof -
  from assms(4) have "f \<noteq> []" by auto
  with parseUnits_form [of w f sign "''.''" 6] assms show ?thesis
    by (auto simp: list_all_iff)
qed


text \<open>
  C9. \<open>parseUnits\<close> at 6 fractional digits reads \<open>0.1\<close> as 100000 and refuses
  \<open>0.0000001\<close>; it refuses every decimal string that has a digit other than zero after
  the sixth fractional digit; and whenever it returns a value, the string is an optional
  minus sign, digits, an optional point and digits, with a digit somewhere and only
  zeros after the sixth fractional digit, and the value is the one those parts denote.
\<close>

theorem parseUnits_six_digits:
  "parseUnits ''0.1'' 6 = Inr 100000 \<and>
   parseUnits ''0.0000001'' 6 = Inl (Error ''too many decimals for format'') \<and>
   (\<forall>sign w f.
      (sign = [] \<or> sign = ''-'') \<and> list_all isDigit w \<and> list_all isDigit f \<and>
      (\<exists>c \<in> set (drop 6 f). c \<noteq> CHR ''0'') \<longrightarrow>
      parseUnits (sign @ w @ ''.'' @ f) 6 = Inl (Error ''too many decimals for format'')) \<and>
   (\<forall>v x.
      parseUnits v 6 = Inr x \<longrightarrow>
      (\<exists>sign w dot f. v = sign @ w @ dot @ f \<and> (sign = [] \<or> sign = ''-'') \<and>
         (dot = ''.'' \<or> (dot = [] \<and> f = [])) \<and> list_all isDigit w \<and> list_all isDigit f \<and>
         (w \<noteq> [] \<or> f \<noteq> []) \<and> list_all (\<lambda>c. c = CHR ''0'') (drop 6 f) \<and>
         x = fixedValue (sign \<noteq> []) w f 6))"
proof (intro conjI allI impI)
  show "parseUnits ''0.1'' 6 = Inr 100000"
    by (rule parseUnits_tenth)
  show "parseUnits ''0.0000001'' 6 = Inl (Error ''too many decimals for format'')"
    by (rule parseUnits_seven_digits)
next
  fix sign w f
  assume "(sign = [] \<or> sign = ''-'') \<and> list_all isDigit w \<and> list_all isDigit f \<and>
          (\<exists>c \<in> set (drop 6 f). c \<noteq> CHR ''0'')"
  then show "parseUnits (sign @ w @ ''.'' @ f) 6 = Inl (Error ''too many decimals for format'')"
    using parseUnits_too_many [of w f sign] by blast
next
  fix v x
  assume "parseUnits v 6 = Inr x"
  then show "\<exists>sign w dot f. v = sign @ w @ dot @ f \<and> (sign = [] \<or> sign = ''-'') \<and>
         (dot = ''.'' \<or> (dot = [] \<and> f = [])) \<and> list_all isDigit w \<and> list_all isDigit f \<and>
         (w \<noteq> [] \<or> f \<noteq> []) \<and> list_all (\<lambda>c. c = CHR ''0'') (drop 6 f) \<and>
         x = fixedValue (sign \<noteq> []) w f 6"
    by (rule parseUnits_Inr_form)
qed

theorem parseUnits_six_digits_witness:
  "parseUnits (''-'' @ ''12'' @ ''.'' @ ''3456789'') 6 =
     Inl (Error ''too many decimals for format'') \<and>
   parseUnits ''0.1'' 6 = Inr 100000 \<and>
   (\<exists>sign w dot f. ''0.1'' = sign @ w @ dot @ f \<and> (sign = [] \<or> sign = ''-'') \<and>
      list_all isDigit w \<and> list_all isDigit f \<and> 100000 = fixedValue (sign \<noteq> []) w f 6)"
proof -
  have h: "(''-'' = [] \<or> ''-'' = ''-'') \<and> list_all isDigit ''12'' \<and> list_all isDigit ''3456789'' \<and>
           (\<exists>c \<in> set (drop 6 ''3456789''). c \<noteq> CHR ''0'')"
    by (simp add: isDigit_def)
  from parseUnits_six_digits have a: "parseUnits ''0.1'' 6 = Inr 100000"
    and c: "\<forall>sign w f.
      (sign = [] \<or> sign = ''-'') \<and> list_all isDigit w \<and> list_all isDigit f \<and>
      (\<exists>c \<in> set (drop 6 f). c \<noteq> CHR ''0'') \<longrightarrow>
      parseUnits (sign @ w @ ''.'' @ f) 6 = Inl (Error ''too many decimals for format'')"
    and d: "\<forall>v x.
      parseUnits v 6 = Inr x \<longrightarrow>
      (\<exists>sign w dot f. v = sign @ w @ dot @ f \<and> (sign = [] \<or> sign = ''-'') \<and>
         (dot = ''.'' \<or> (dot = [] \<and> f = [])) \<and> list_all isDigit w \<and> list_all isDigit f \<and>
         (w \<noteq> [] \<or> f \<noteq> []) \<and> list_all (\<lambda>c. c = CHR ''0'') (drop 6 f) \<and>
         x = fixedValue (sign \<noteq> []) w f 6)"
    by blast+
  from c h have 1: "parseUnits (''-'' @ ''12'' @ ''.'' @ ''3456789'') 6 =
     Inl (Error ''too many decimals for format'')"
    by blast
  from d a have "\<exists>sign w dot f. ''0.1'' = sign @ w @ dot @ f \<and> (sign = [] \<or> sign = ''-'') \<and>
         (dot = ''.'' \<or> (dot = [] \<and> f = [])) \<and> list_all isDigit w \<and> list_all isDigit f \<and>
         (w \<noteq> [] \<or> f \<noteq> []) \<and> list_all (\<lambda>c. c = CHR ''0'') (drop 6 f) \<and>
         100000 = fixedValue (sign \<noteq> []) w f 6"
    by blast
  then have 2: "\<exists>sign w dot f. ''0.1'' = sign @ w @ dot @ f \<and> (sign = [] \<or> sign = ''-'') \<and>
      list_all isDigit w \<and> list_all isDigit f \<and> 100000 = fixedValue (sign \<noteq> []) w f 6"
    by blast
  from 1 a 2 show ?thesis by blast
qed

text \<open>A string of seven fractional digits that parses: the seventh is a zero.\<close>

theorem parseUnits_seven_digits_accepted:
  "length ''0000000'' = 7 \<and> parseUnits (''1'' @ ''.'' @ ''0000000'') 6 = Inr 1000000"
  using parseUnits_trailing_zero by simp

section \<open>Authorization preparer\<close>

lemma natToString_digit: "n < 10 \<Longrightarrow> natToString n = [decimalDigit n]"
  by (simp add: natToString.simps)

lemma natToString_step:
  "10 \<le> n \<Longrightarrow> natToString n = natToString (n div 10) @ [decimalDigit n]"
  by (subst natToString.simps) simp

lemma prepare_example:
  "prepareTransaction exampleEnv exampleTransfer =
     (Inr examplePrepared,
      [CalculateCommitment ''0x80e941858065dfD4875030A7a30DfbfeE8c7742a'',
       GetTokenInfo ''0xc01efAaF7C5C61bEbFAeb358E1161b537b8bC0e0''])"
  by (simp add: prepareTransaction_def exampleEnv_def exampleTransfer_def examplePrepared_def
      transferService_def encodeForService_def encode_def parseUnits_tenth parseUnits_zero
      stringOr_def numberOr_def truthy_def calculateCommitment_def getTokenInfo_def
      transferParamsOf_def validBeforeAt_def typedDataOf_def fieldText_def intToString_def
      transfer_params.extend_def CommitmentParams.fields_def
      natToString_digit natToString_step decimalDigit_def Let_def)

lemma prepare_example_zero:
  "prepareTransaction exampleEnv (exampleTransfer\<lparr>validitySeconds := Some 0\<rparr>) =
     (Inr examplePrepared,
      [CalculateCommitment ''0x80e941858065dfD4875030A7a30DfbfeE8c7742a'',
       GetTokenInfo ''0xc01efAaF7C5C61bEbFAeb358E1161b537b8bC0e0''])"
  by (simp add: prepareTransaction_def exampleEnv_def exampleTransfer_def examplePrepared_def
      transferService_def encodeForService_def encode_def parseUnits_tenth parseUnits_zero
      stringOr_def numberOr_def truthy_def calculateCommitment_def getTokenInfo_def
      transferParamsOf_def validBeforeAt_def typedDataOf_def fieldText_def intToString_def
      transfer_params.extend_def CommitmentParams.fields_def
      natToString_digit natToString_step decimalDigit_def Let_def)

text \<open>
  C8. Whenever \<open>prepareTransaction\<close> returns an authorization, its \<open>validAfter\<close> is 0,
  its \<open>validBefore\<close> is the clock in whole seconds plus the validity, where the validity
  is the caller's number when one is given and is not zero and 3600 otherwise, and its
  fee is the parse of the caller's text when one is given and is not empty and of \<open>0\<close>
  otherwise.
\<close>

theorem prepareTransaction_defaults:
  assumes "prepareTransaction env p = (Inr prepared, calls)"
  shows "validAfter (params prepared) = 0 \<and>
         validBefore (params prepared) =
           now_ms env div 1000 +
           (case validitySeconds p of None \<Rightarrow> 3600 | Some n \<Rightarrow> if n = 0 then 3600 else n) \<and>
         parseUnits
           (case facilitatorFee_param p of None \<Rightarrow> ''0'' | Some t \<Rightarrow> if t = [] then ''0'' else t) 6
           = Inr (facilitatorFee (params prepared))"
proof -
  have s: "stringOr (facilitatorFee_param p) ''0'' =
           (case facilitatorFee_param p of None \<Rightarrow> ''0'' | Some t \<Rightarrow> if t = [] then ''0'' else t)"
    by (simp add: stringOr_def truthy_def split: option.splits)
  have n: "numberOr (validitySeconds p) 3600 =
           (case validitySeconds p of None \<Rightarrow> 3600 | Some n \<Rightarrow> if n = 0 then 3600 else n)"
    by (simp add: numberOr_def)
  from assms show ?thesis
    unfolding prepareTransaction_def Let_def s
    by (auto simp: transferParamsOf_def validBeforeAt_def n split: sum.splits)
qed

theorem prepareTransaction_defaults_witness:
  "prepareTransaction exampleEnv exampleTransfer =
     (Inr examplePrepared,
      [CalculateCommitment ''0x80e941858065dfD4875030A7a30DfbfeE8c7742a'',
       GetTokenInfo ''0xc01efAaF7C5C61bEbFAeb358E1161b537b8bC0e0'']) \<and>
   validAfter (params examplePrepared) = 0 \<and>
   validBefore (params examplePrepared) = 1700000000 + 3600 \<and>
   facilitatorFee (params examplePrepared) = 0"
  using prepareTransaction_defaults [OF prepare_example]
  by (simp add: prepare_example examplePrepared_def)

text \<open>A caller who asks for a validity of 0 seconds at Unix time 1700000000 gets the
  bound 1700003600, not 1700000000.\<close>

theorem prepareTransaction_zero_validity:
  "validitySeconds (exampleTransfer\<lparr>validitySeconds := Some 0\<rparr>) = Some 0 \<and>
   now_ms exampleEnv div 1000 = 1700000000 \<and>
   fst (prepareTransaction exampleEnv (exampleTransfer\<lparr>validitySeconds := Some 0\<rparr>)) =
     Inr examplePrepared \<and>
   validBefore (params examplePrepared) = 1700003600"
proof -
  have "now_ms exampleEnv div 1000 = 1700000000"
    by (simp add: exampleEnv_def)
  then show ?thesis
    by (simp add: prepare_example_zero examplePrepared_def)
qed

section \<open>The codec's round trip\<close>

subsection \<open>Hexadecimal text\<close>

lemma isHexDigit_cases:
  "isHexDigit c \<Longrightarrow> c \<in> set ''0123456789abcdefABCDEF''"
  by (simp add: isHexDigit_def)

lemma toLowerChar_hex:
  "toLowerChar CHR ''0'' = CHR ''0''"
  "toLowerChar CHR ''1'' = CHR ''1''"
  "toLowerChar CHR ''2'' = CHR ''2''"
  "toLowerChar CHR ''3'' = CHR ''3''"
  "toLowerChar CHR ''4'' = CHR ''4''"
  "toLowerChar CHR ''5'' = CHR ''5''"
  "toLowerChar CHR ''6'' = CHR ''6''"
  "toLowerChar CHR ''7'' = CHR ''7''"
  "toLowerChar CHR ''8'' = CHR ''8''"
  "toLowerChar CHR ''9'' = CHR ''9''"
  "toLowerChar CHR ''a'' = CHR ''a''"
  "toLowerChar CHR ''b'' = CHR ''b''"
  "toLowerChar CHR ''c'' = CHR ''c''"
  "toLowerChar CHR ''d'' = CHR ''d''"
  "toLowerChar CHR ''e'' = CHR ''e''"
  "toLowerChar CHR ''f'' = CHR ''f''"
  "toLowerChar CHR ''A'' = CHR ''a''"
  "toLowerChar CHR ''B'' = CHR ''b''"
  "toLowerChar CHR ''C'' = CHR ''c''"
  "toLowerChar CHR ''D'' = CHR ''d''"
  "toLowerChar CHR ''E'' = CHR ''e''"
  "toLowerChar CHR ''F'' = CHR ''f''"
  by (simp_all add: toLowerChar_def)

lemma hexDigitValue_hex:
  "hexDigitValue CHR ''0'' = 0"
  "hexDigitValue CHR ''1'' = 1"
  "hexDigitValue CHR ''2'' = 2"
  "hexDigitValue CHR ''3'' = 3"
  "hexDigitValue CHR ''4'' = 4"
  "hexDigitValue CHR ''5'' = 5"
  "hexDigitValue CHR ''6'' = 6"
  "hexDigitValue CHR ''7'' = 7"
  "hexDigitValue CHR ''8'' = 8"
  "hexDigitValue CHR ''9'' = 9"
  "hexDigitValue CHR ''a'' = 10"
  "hexDigitValue CHR ''b'' = 11"
  "hexDigitValue CHR ''c'' = 12"
  "hexDigitValue CHR ''d'' = 13"
  "hexDigitValue CHR ''e'' = 14"
  "hexDigitValue CHR ''f'' = 15"
  "hexDigitValue CHR ''A'' = 10"
  "hexDigitValue CHR ''B'' = 11"
  "hexDigitValue CHR ''C'' = 12"
  "hexDigitValue CHR ''D'' = 13"
  "hexDigitValue CHR ''E'' = 14"
  "hexDigitValue CHR ''F'' = 15"
  by (simp_all add: hexDigitValue_def)

lemma hexDigit_small:
  "hexDigit (Suc 0) = CHR ''1''"
  "hexDigit 0 = CHR ''0''"
  "hexDigit 1 = CHR ''1''"
  "hexDigit 2 = CHR ''2''"
  "hexDigit 3 = CHR ''3''"
  "hexDigit 4 = CHR ''4''"
  "hexDigit 5 = CHR ''5''"
  "hexDigit 6 = CHR ''6''"
  "hexDigit 7 = CHR ''7''"
  "hexDigit 8 = CHR ''8''"
  "hexDigit 9 = CHR ''9''"
  "hexDigit 10 = CHR ''a''"
  "hexDigit 11 = CHR ''b''"
  "hexDigit 12 = CHR ''c''"
  "hexDigit 13 = CHR ''d''"
  "hexDigit 14 = CHR ''e''"
  "hexDigit 15 = CHR ''f''"
  by (simp_all add: hexDigit_def)

lemma hexDigitValue_less: "hexDigitValue c < 16"
proof (cases "isHexDigit c")
  case True
  from isHexDigit_cases [OF this] show ?thesis
    by (auto simp: hexDigitValue_hex)
next
  case False
  then have "map_of (zip ''0123456789abcdefABCDEF''
        [0, 1, 2, 3, 4, 5, 6, 7, 8, 9, 10, 11, 12, 13, 14, 15, 10, 11, 12, 13, 14, 15 :: nat]) c = None"
    by (simp add: isHexDigit_def)
  then show ?thesis
    by (simp add: hexDigitValue_def)
qed

lemma hexDigit_value:
  "isHexDigit c \<Longrightarrow> hexDigit (hexDigitValue c) = toLowerChar c"
  by (drule isHexDigit_cases) (auto simp: hexDigitValue_hex hexDigit_small toLowerChar_hex)

lemma hexDigit_mod16: "hexDigit n = hexDigit (n mod 16)"
  by (simp add: hexDigit_def)

lemma hexDigit_mod: "hexDigit (16 * m + n) = hexDigit n"
  by (simp add: hexDigit_def)

lemma less16_cases:
  "(m::nat) < 16 \<Longrightarrow> m = 0 \<or> m = 1 \<or> m = 2 \<or> m = 3 \<or> m = 4 \<or> m = 5 \<or> m = 6 \<or> m = 7 \<or>
     m = 8 \<or> m = 9 \<or> m = 10 \<or> m = 11 \<or> m = 12 \<or> m = 13 \<or> m = 14 \<or> m = 15"
  by arith

lemma hexDigit_range: "hexDigit n \<in> set ''0123456789abcdef''"
proof -
  have "n mod 16 < 16" by simp
  from less16_cases [OF this] have "hexDigit (n mod 16) \<in> set ''0123456789abcdef''"
    by (elim disjE) (simp_all add: hexDigit_small)
  then show ?thesis using hexDigit_mod16 [of n] by simp
qed

lemma hexDigit_isHex: "isHexDigit (hexDigit n)"
  using hexDigit_range [of n] by (auto simp: isHexDigit_def)

lemma hexDigit_lower: "toLowerChar (hexDigit n) = hexDigit n"
  using hexDigit_range [of n] by (auto simp: toLowerChar_hex)

lemma hexDigit_not_upper: "hexDigit n \<notin> set ''ABCDEF''"
  using hexDigit_range [of n] by auto

lemma hexDigitValue_hexDigit: "hexDigitValue (hexDigit n) = n mod 16"
proof -
  have "n mod 16 < 16" by simp
  from less16_cases [OF this] have "hexDigitValue (hexDigit (n mod 16)) = n mod 16"
    by (elim disjE) (simp_all add: hexDigit_small hexDigitValue_hex)
  then show ?thesis using hexDigit_mod16 [of n] by simp
qed

lemma hexToNat_snoc: "hexToNat (xs @ [c]) = 16 * hexToNat xs + hexDigitValue c"
  by (simp add: hexToNat_def)

lemma length_natToHex [simp]: "length (natToHex k n) = k"
  by (induction k arbitrary: n) simp_all

lemma natToHex_hexToNat:
  "list_all isHexDigit body \<Longrightarrow> natToHex (length body) (hexToNat body) = map toLowerChar body"
proof (induction body rule: rev_induct)
  case Nil
  then show ?case by simp
next
  case (snoc c body)
  then have c: "isHexDigit c" and b: "list_all isHexDigit body" by simp_all
  have "(16 * hexToNat body + hexDigitValue c) div 16 = hexToNat body"
    using hexDigitValue_less [of c] by simp
  with snoc.IH [OF b] hexDigit_value [OF c] show ?case
    by (simp add: hexToNat_snoc hexDigit_mod)
qed

lemma hexToNat_natToHex: "hexToNat (natToHex k n) = n mod 16 ^ k"
proof (induction k arbitrary: n)
  case 0
  then show ?case by (simp add: hexToNat_def)
next
  case (Suc k)
  have "n mod (16 * 16 ^ k) = 16 * (n div 16 mod 16 ^ k) + n mod 16"
    by (rule mod_mult2_eq)
  with Suc show ?case
    by (simp add: hexToNat_snoc hexDigitValue_hexDigit)
qed

lemma hexToNat_less:
  "hexToNat body < 16 ^ length body"
proof (induction body rule: rev_induct)
  case Nil
  then show ?case by (simp add: hexToNat_def)
next
  case (snoc c body)
  have "hexDigitValue c < 16" by (rule hexDigitValue_less)
  with snoc have "16 * hexToNat body + hexDigitValue c < 16 * 16 ^ length body"
    by linarith
  then show ?case by (simp add: hexToNat_snoc)
qed

lemma natToHex_isHex: "list_all isHexDigit (natToHex k n)"
  by (induction k arbitrary: n) (simp_all add: hexDigit_isHex)

lemma natToHex_lower: "map toLowerChar (natToHex k n) = natToHex k n"
  by (induction k arbitrary: n) (simp_all add: hexDigit_lower)

lemma natToHex_not_upper: "c \<in> set (natToHex k n) \<Longrightarrow> c \<notin> set ''ABCDEF''"
proof (induction k arbitrary: n)
  case 0
  then show ?case by simp
next
  case (Suc k)
  then show ?case using hexDigit_not_upper by auto
qed

subsection \<open>Addresses and words\<close>

lemma getChecksumAddress_prefix: "take 2 (getChecksumAddress x) = ''0x''"
  by (simp add: getChecksumAddress_def Let_def)

lemma toLowerChar_hex_idem: "isHexDigit c \<Longrightarrow> toLowerChar (toLowerChar c) = toLowerChar c"
  by (drule isHexDigit_cases) (auto simp: toLowerChar_hex)

lemma toLowerChar_0x: "toLowerChar CHR ''x'' = CHR ''x''"
  by (simp add: toLowerChar_def)

lemma getChecksumAddress_lower:
  "list_all isHexDigit body \<Longrightarrow>
   getChecksumAddress (''0x'' @ map toLowerChar body) = getChecksumAddress (''0x'' @ body)"
proof -
  assume "list_all isHexDigit body"
  then have "map toLowerChar (map toLowerChar body) = map toLowerChar body"
    by (induction body) (simp_all add: toLowerChar_hex_idem)
  then have "toLowerCase (''0x'' @ map toLowerChar body) = toLowerCase (''0x'' @ body)"
    by (simp add: toLowerCase_def)
  then show ?thesis
    by (simp only: getChecksumAddress_def)
qed

lemma canonical_form:
  assumes "canonicalAddress a"
  shows "\<exists>body. a = ''0x'' @ body \<and> length body = 40 \<and> list_all isHexDigit body \<and>
           getChecksumAddress a = a"
proof -
  from assms have g: "getAddress a = Some a"
    by (simp add: canonicalAddress_def)
  have notxe: "\<not> startsWith a ''XE''" if "take 2 a = ''0x''"
    using that by (auto simp: startsWith_def numeral_2_eq_2)
  show ?thesis
  proof (cases "isHexAddressShape a")
    case True
    let ?p = "if startsWith a ''0x'' then a else ''0x'' @ a"
    from g True have r: "getChecksumAddress ?p = a"
      by (auto simp: getAddress_def Let_def split: if_splits)
    then have "take 2 a = ''0x''"
      using getChecksumAddress_prefix [of ?p] by simp
    then have s: "startsWith a ''0x''"
      by (simp add: startsWith_def numeral_2_eq_2)
    with r have c: "getChecksumAddress a = a" by simp
    from s have "a = ''0x'' @ drop 2 a"
      by (metis append_take_drop_id startsWith_0x)
    moreover from True s have "length (drop 2 a) = 40 \<and> list_all isHexDigit (drop 2 a)"
      by (simp add: isHexAddressShape_def Let_def)
    ultimately show ?thesis using c by blast
  next
    case False
    with g obtain h where "getChecksumAddress h = a" and "isIcapShape a"
      by (auto simp: getAddress_def Let_def split: if_splits)
    then have "take 2 a = ''0x''" and "startsWith a ''XE''"
      using getChecksumAddress_prefix [of h] by (auto simp: isIcapShape_def)
    with notxe show ?thesis by blast
  qed
qed

lemma sixteen_forty: "(16::nat) ^ 40 = 2 ^ 160"
  by simp

lemma not_mixed_lower:
  "isMixedCase (''0x'' @ natToHex k n) = False"
  using natToHex_not_upper [of _ k n]
  by (auto simp: isMixedCase_def)

lemma encodeAddress_canonical:
  assumes "canonicalAddress a"
  shows "encodeAddress a = Some (wordHex (hexToNat (drop 2 a)))"
  using assms by (simp add: encodeAddress_def canonicalAddress_def)

lemma decodeAddress_canonical:
  assumes "canonicalAddress a"
  shows "decodeAddress (hexToNat (drop 2 a)) = Some a"
proof -
  from canonical_form [OF assms] obtain body where a: "a = ''0x'' @ body"
    and l: "length body = 40" and h: "list_all isHexDigit body"
    and c: "getChecksumAddress a = a"
    by blast
  have lt: "hexToNat body < 2 ^ 160"
    using hexToNat_less [of body] l by simp
  have n: "natToHex 40 (hexToNat body) = map toLowerChar body"
    using natToHex_hexToNat [OF h] l by simp
  let ?low = "''0x'' @ map toLowerChar body"
  have shape: "isHexAddressShape ?low"
    using l natToHex_isHex [of 40 "hexToNat body"] n
    by (simp add: isHexAddressShape_def startsWith_def Let_def)
  have nm: "\<not> isMixedCase ?low"
    using not_mixed_lower [of 40 "hexToNat body"] n by simp
  have "getAddress ?low = Some (getChecksumAddress ?low)"
    using shape nm by (simp add: getAddress_def Let_def startsWith_def)
  also have "getChecksumAddress ?low = a"
    using getChecksumAddress_lower [OF h] c a by simp
  finally show ?thesis
    using lt n a by (simp add: decodeAddress_def)
qed

lemma length_wordHex [simp]: "length (wordHex n) = 64"
  by (simp add: wordHex_def)

lemma wordHex_isHex: "list_all isHexDigit (wordHex n)"
  by (simp add: wordHex_def natToHex_isHex)

lemma readValue_wordHex:
  "n < 16 ^ 64 \<Longrightarrow> readValue (wordHex n @ rest) = Some n"
  by (simp add: readValue_def wordHex_def hexToNat_natToHex)

lemma address_word_small:
  assumes "canonicalAddress a"
  shows "hexToNat (drop 2 a) < 16 ^ 64"
proof -
  from canonical_form [OF assms] obtain body where a: "a = ''0x'' @ body"
    and l: "length body = 40" by blast
  have "hexToNat body < 16 ^ 40"
    using hexToNat_less [of body] l by simp
  also have "(16::nat) ^ 40 \<le> 16 ^ 64"
    by (rule power_increasing) simp_all
  finally show ?thesis using a by simp
qed

lemma wordHex_not_Nil [simp]: "wordHex n \<noteq> []"
  using length_wordHex [of n] by (metis length_0_conv zero_neq_numeral)

lemma getBytes_0x:
  "list_all isHexDigit d \<Longrightarrow> even (length d) \<Longrightarrow> getBytes (''0x'' @ d) = Some d"
  by (simp add: getBytes_def startsWith_def)

lemma address_tuple_payload:
  assumes "canonicalAddress a"
  shows "abiEncodeAddressTuple a = Inr (''0x'' @ wordHex (hexToNat (drop 2 a)))"
    and "abiDecodeAddressTuple (''0x'' @ wordHex (hexToNat (drop 2 a))) = Inr a"
proof -
  let ?w = "hexToNat (drop 2 a)"
  show "abiEncodeAddressTuple a = Inr (''0x'' @ wordHex ?w)"
    by (simp add: abiEncodeAddressTuple_def encodeAddress_canonical [OF assms])
  have b: "getBytes (''0x'' @ wordHex ?w) = Some (wordHex ?w)"
    by (rule getBytes_0x) (simp_all add: wordHex_isHex)
  have r: "readValue (wordHex ?w) = Some ?w"
    using readValue_wordHex [OF address_word_small [OF assms], of "[]"] by simp
  show "abiDecodeAddressTuple (''0x'' @ wordHex ?w) = Inr a"
    unfolding abiDecodeAddressTuple_def b
    by (simp add: r decodeAddress_canonical [OF assms])
qed

lemma address_tuple_round_trip:
  assumes "canonicalAddress a"
  shows "\<exists>payload. abiEncodeAddressTuple a = Inr payload \<and> payload \<noteq> ''0x'' \<and> payload \<noteq> [] \<and>
           abiDecodeAddressTuple payload = Inr a"
proof -
  let ?w = "hexToNat (drop 2 a)"
  have e: "abiEncodeAddressTuple a = Inr (''0x'' @ wordHex ?w)"
    by (simp add: abiEncodeAddressTuple_def encodeAddress_canonical [OF assms])
  have b: "getBytes (''0x'' @ wordHex ?w) = Some (wordHex ?w)"
    by (rule getBytes_0x) (simp_all add: wordHex_isHex)
  have r: "readValue (wordHex ?w) = Some ?w"
    using readValue_wordHex [OF address_word_small [OF assms], of "[]"] by simp
  have d: "abiDecodeAddressTuple (''0x'' @ wordHex ?w) = Inr a"
    unfolding abiDecodeAddressTuple_def b
    by (simp add: r decodeAddress_canonical [OF assms])
  have n: "''0x'' @ wordHex ?w \<noteq> ''0x''" "''0x'' @ wordHex ?w \<noteq> []"
    by simp_all
  from e d n show ?thesis by blast
qed

lemma encodeUint16_int:
  "0 \<le> b \<Longrightarrow> b \<le> 65535 \<Longrightarrow> encodeUint16 (Finite (of_int b)) = Some (wordHex (nat b))"
  by (simp add: encodeUint16_def isInteger_def)

lemma decodeUint16_int:
  "0 \<le> b \<Longrightarrow> b \<le> 65535 \<Longrightarrow> decodeUint16 (nat b) = Finite (of_int b)"
  by (simp add: decodeUint16_def)

lemma isUint16_int:
  assumes "isUint16 v"
  shows "v = Finite (of_int (integerOf v))" and "0 \<le> integerOf v" and "integerOf v \<le> 65535"
  using assms isInteger_Finite [of v] by (simp_all add: isUint16_def)

lemma encodeSplit_canonical:
  assumes "canonicalSplit s"
  shows "encodeSplit s =
    Some (wordHex (hexToNat (drop 2 (recipient s))) @ wordHex (nat (integerOf (bips s))))"
proof -
  from assms have u: "isUint16 (bips s)" and a: "canonicalAddress (recipient s)"
    by (simp_all add: canonicalSplit_def)
  from isUint16_int [OF u]
  have "encodeUint16 (bips s) = Some (wordHex (nat (integerOf (bips s))))"
    using encodeUint16_int [of "integerOf (bips s)"] by simp
  then show ?thesis
    by (simp add: encodeSplit_def encodeAddress_canonical [OF a])
qed

lemma bips_small: "0 \<le> b \<Longrightarrow> b \<le> 65535 \<Longrightarrow> nat b < 16 ^ 64"
proof -
  assume "0 \<le> b" "b \<le> 65535"
  then have "nat b < 16 ^ 4" by simp
  also have "(16::nat) ^ 4 \<le> 16 ^ 64"
    by (rule power_increasing) simp_all
  finally show ?thesis .
qed

lemma decodeSplits_encodeSplits:
  assumes "list_all canonicalSplit ss"
  shows "\<exists>es. encodeSplits ss = Some es \<and> length es = 128 * length ss \<and>
              list_all isHexDigit es \<and> (\<forall>rest. decodeSplits (length ss) (es @ rest) = Some ss)"
  using assms
proof (induction ss)
  case Nil
  then show ?case by simp
next
  case (Cons s ss)
  then have cs: "canonicalSplit s" and css: "list_all canonicalSplit ss"
    by simp_all
  from Cons.IH [OF css] obtain es where es: "encodeSplits ss = Some es"
    and len: "length es = 128 * length ss" and hex: "list_all isHexDigit es"
    and dec: "\<And>rest. decodeSplits (length ss) (es @ rest) = Some ss"
    by blast
  let ?a = "hexToNat (drop 2 (recipient s))"
  let ?b = "nat (integerOf (bips s))"
  let ?e = "wordHex ?a @ wordHex ?b"
  from cs have ca: "canonicalAddress (recipient s)" and u16: "isUint16 (bips s)"
    by (simp_all add: canonicalSplit_def)
  from isUint16_int [OF u16] have bv: "bips s = Finite (of_int (integerOf (bips s)))"
    and b0: "0 \<le> integerOf (bips s)" and b1: "integerOf (bips s) \<le> 65535"
    by simp_all
  have enc: "encodeSplits (s # ss) = Some (?e @ es)"
    by (simp add: encodeSplit_canonical [OF cs] es)
  have "decodeSplits (length (s # ss)) ((?e @ es) @ rest) = Some (s # ss)" for rest
  proof -
    have r1: "readValue (wordHex ?a @ (wordHex ?b @ es @ rest)) = Some ?a"
      by (rule readValue_wordHex [OF address_word_small [OF ca]])
    have r2: "readValue (wordHex ?b @ (es @ rest)) = Some ?b"
      by (rule readValue_wordHex [OF bips_small [OF b0 b1]])
    have u: "decodeUint16 ?b = bips s"
      using decodeUint16_int [OF b0 b1] bv by simp
    show ?thesis
      using r1 r2 u decodeAddress_canonical [OF ca] dec [of rest]
      by simp
  qed
  then have 3: "\<forall>rest. decodeSplits (length (s # ss)) ((?e @ es) @ rest) = Some (s # ss)"
    by blast
  have 1: "length (?e @ es) = 128 * length (s # ss)"
    by (simp add: len)
  have 2: "list_all isHexDigit (?e @ es)"
    by (simp add: wordHex_isHex hex)
  from enc 1 2 3 show ?case by blast
qed

lemma splits_round_trip:
  assumes "list_all canonicalSplit ss" and "length ss < 2 ^ 32" and "ss \<noteq> []"
  shows "\<exists>payload. abiEncodeSplits ss = Inr payload \<and> payload \<noteq> ''0x'' \<and> payload \<noteq> [] \<and>
           abiDecodeSplits payload = Inr ss"
proof -
  from decodeSplits_encodeSplits [OF assms(1)] obtain es where es: "encodeSplits ss = Some es"
    and len: "length es = 128 * length ss" and hex: "list_all isHexDigit es"
    and dec: "\<And>rest. decodeSplits (length ss) (es @ rest) = Some ss"
    by blast
  let ?n = "length ss"
  let ?d = "wordHex 32 @ wordHex ?n @ es"
  have e: "abiEncodeSplits ss = Inr (''0x'' @ ?d)"
    by (simp add: abiEncodeSplits_def es)
  have b: "getBytes (''0x'' @ ?d) = Some ?d"
    by (rule getBytes_0x) (simp_all add: wordHex_isHex hex len)
  have n53: "?n \<le> 9007199254740991"
    using assms(2) by simp
  have n64: "?n < 16 ^ 64"
  proof -
    have "?n < 16 ^ 8" using assms(2) by simp
    also have "(16::nat) ^ 8 \<le> 16 ^ 64"
      by (rule power_increasing) simp_all
    finally show ?thesis .
  qed
  have t64: "(32::nat) < 16 ^ 64"
  proof -
    have "(32::nat) < 16 ^ 2" by simp
    also have "(16::nat) ^ 2 \<le> 16 ^ 64"
      by (rule power_increasing) simp_all
    finally show ?thesis .
  qed
  have i1: "readIndex ?d = Some 32"
    using readValue_wordHex [OF t64, of "wordHex ?n @ es"] by (simp add: readIndex_def)
  have sub: "drop (2 * 32) ?d = wordHex ?n @ es"
    by simp
  have i2: "readIndex (wordHex ?n @ es) = Some ?n"
    using readValue_wordHex [OF n64, of es] n53 by (simp add: readIndex_def)
  have fit: "\<not> ?n * 32 > length (wordHex ?n @ es) div 2"
    by (simp add: len)
  have body: "decodeSplits ?n (drop 64 (wordHex ?n @ es)) = Some ss"
    using dec [of "[]"] by simp
  have d: "abiDecodeSplits (''0x'' @ ?d) = Inr ss"
    unfolding abiDecodeSplits_def b
    by (simp only: option.case i1 sub Let_def i2 fit if_False body)
  have ne: "''0x'' @ ?d \<noteq> ''0x''" "''0x'' @ ?d \<noteq> []"
    by simp_all
  from e d ne show ?thesis by blast
qed

lemma decode_NftMint:
  "payload \<noteq> ''0x'' \<Longrightarrow> payload \<noteq> [] \<Longrightarrow> abiDecodeAddressTuple payload = Inr a \<Longrightarrow>
   decode NftMint payload = Inr (NFTMintHookData a)"
  by (simp add: decode_def)

lemma decode_RewardPoints:
  "payload \<noteq> ''0x'' \<Longrightarrow> payload \<noteq> [] \<Longrightarrow> abiDecodeAddressTuple payload = Inr a \<Longrightarrow>
   decode RewardPoints payload = Inr (RewardPointsHookData a)"
  by (simp add: decode_def)

lemma decode_TransferSplit:
  "payload \<noteq> ''0x'' \<Longrightarrow> payload \<noteq> [] \<Longrightarrow> abiDecodeSplits payload = Inr ss \<Longrightarrow>
   decode TransferSplit payload = Inr (TransferSplitHookData (Some ss))"
  by (simp add: decode_def)


subsection \<open>The checksum of an address, evaluated\<close>

lemmas keccak_eval = keccakRound_def theta_def rhoPi_def chi_def iota_def rotl_def
  rotationOffsets_def laneIndices_def exampleStates_def Let_def

lemma chunks_numeral:
  "chunks (numeral k) n xs = take n xs # chunks (pred_numeral k) n (drop n xs)"
  by (simp add: numeral_eq_Suc)

lemma keccak_round_1:
  "keccakRound (exampleStates ! 0) 1 = exampleStates ! 1"
  by (simp add: keccak_eval)

lemma keccak_round_2:
  "keccakRound (exampleStates ! 1) 32898 = exampleStates ! 2"
  by (simp add: keccak_eval)

lemma keccak_round_3:
  "keccakRound (exampleStates ! 2) 9223372036854808714 = exampleStates ! 3"
  by (simp add: keccak_eval)

lemma keccak_round_4:
  "keccakRound (exampleStates ! 3) 9223372039002292224 = exampleStates ! 4"
  by (simp add: keccak_eval)

lemma keccak_round_5:
  "keccakRound (exampleStates ! 4) 32907 = exampleStates ! 5"
  by (simp add: keccak_eval)

lemma keccak_round_6:
  "keccakRound (exampleStates ! 5) 2147483649 = exampleStates ! 6"
  by (simp add: keccak_eval)

lemma keccak_round_7:
  "keccakRound (exampleStates ! 6) 9223372039002292353 = exampleStates ! 7"
  by (simp add: keccak_eval)

lemma keccak_round_8:
  "keccakRound (exampleStates ! 7) 9223372036854808585 = exampleStates ! 8"
  by (simp add: keccak_eval)

lemma keccak_round_9:
  "keccakRound (exampleStates ! 8) 138 = exampleStates ! 9"
  by (simp add: keccak_eval)

lemma keccak_round_10:
  "keccakRound (exampleStates ! 9) 136 = exampleStates ! 10"
  by (simp add: keccak_eval)

lemma keccak_round_11:
  "keccakRound (exampleStates ! 10) 2147516425 = exampleStates ! 11"
  by (simp add: keccak_eval)

lemma keccak_round_12:
  "keccakRound (exampleStates ! 11) 2147483658 = exampleStates ! 12"
  by (simp add: keccak_eval)

lemma keccak_round_13:
  "keccakRound (exampleStates ! 12) 2147516555 = exampleStates ! 13"
  by (simp add: keccak_eval)

lemma keccak_round_14:
  "keccakRound (exampleStates ! 13) 9223372036854775947 = exampleStates ! 14"
  by (simp add: keccak_eval)

lemma keccak_round_15:
  "keccakRound (exampleStates ! 14) 9223372036854808713 = exampleStates ! 15"
  by (simp add: keccak_eval)

lemma keccak_round_16:
  "keccakRound (exampleStates ! 15) 9223372036854808579 = exampleStates ! 16"
  by (simp add: keccak_eval)

lemma keccak_round_17:
  "keccakRound (exampleStates ! 16) 9223372036854808578 = exampleStates ! 17"
  by (simp add: keccak_eval)

lemma keccak_round_18:
  "keccakRound (exampleStates ! 17) 9223372036854775936 = exampleStates ! 18"
  by (simp add: keccak_eval)

lemma keccak_round_19:
  "keccakRound (exampleStates ! 18) 32778 = exampleStates ! 19"
  by (simp add: keccak_eval)

lemma keccak_round_20:
  "keccakRound (exampleStates ! 19) 9223372039002259466 = exampleStates ! 20"
  by (simp add: keccak_eval)

lemma keccak_round_21:
  "keccakRound (exampleStates ! 20) 9223372039002292353 = exampleStates ! 21"
  by (simp add: keccak_eval)

lemma keccak_round_22:
  "keccakRound (exampleStates ! 21) 9223372036854808704 = exampleStates ! 22"
  by (simp add: keccak_eval)

lemma keccak_round_23:
  "keccakRound (exampleStates ! 22) 2147483649 = exampleStates ! 23"
  by (simp add: keccak_eval)

lemma keccak_round_24:
  "keccakRound (exampleStates ! 23) 9223372039002292232 = exampleStates ! 24"
  by (simp add: keccak_eval)

lemma keccakF_example: "keccakF (exampleStates ! 0) = exampleStates ! 24"
  by (simp only: keccakF_def roundConstants_def foldl.simps
      keccak_round_1 keccak_round_2 keccak_round_3 keccak_round_4 keccak_round_5
      keccak_round_6 keccak_round_7 keccak_round_8 keccak_round_9 keccak_round_10
      keccak_round_11 keccak_round_12 keccak_round_13 keccak_round_14 keccak_round_15
      keccak_round_16 keccak_round_17 keccak_round_18 keccak_round_19 keccak_round_20
      keccak_round_21 keccak_round_22 keccak_round_23 keccak_round_24)

lemma example_block:
  "map2 (XOR) (replicate 25 0)
     (map laneOfBytes
        (chunks 17 8 (pad (map of_char ''a8633f571c51ad0ea7b3c51ec930ee51ff8f0551''))) @
      replicate 8 0) = exampleStates ! 0"
  by (simp add: pad_def chunks_numeral replicate_numeral exampleStates_def)

lemma example_blocks:
  "chunks (length (pad (map of_char ''a8633f571c51ad0ea7b3c51ec930ee51ff8f0551'')) div 136) 136
     (pad (map of_char ''a8633f571c51ad0ea7b3c51ec930ee51ff8f0551'')) =
   [pad (map of_char ''a8633f571c51ad0ea7b3c51ec930ee51ff8f0551'')]"
  by (simp add: pad_def)

lemma keccak256_example:
  "keccak256 (map of_char ''a8633f571c51ad0ea7b3c51ec930ee51ff8f0551'') =
     [158, 203, 135, 67, 144, 26, 83, 219, 193, 39, 51, 173, 153, 151, 209, 208,
      24, 171, 236, 175, 128, 229, 222, 228, 136, 218, 31, 66, 122, 133, 24, 154]"
proof -
  have "foldl absorbBlock (replicate 25 0)
          [pad (map of_char ''a8633f571c51ad0ea7b3c51ec930ee51ff8f0551'')] = exampleStates ! 24"
    by (simp only: foldl.simps absorbBlock_def example_block keccakF_example)
  then have "keccak256 (map of_char ''a8633f571c51ad0ea7b3c51ec930ee51ff8f0551'') =
      concat (map bytesOfLane (take 4 (exampleStates ! 24)))"
    by (simp only: keccak256_def Let_def example_blocks)
  also have "\<dots> = [158, 203, 135, 67, 144, 26, 83, 219, 193, 39, 51, 173, 153, 151, 209, 208,
      24, 171, 236, 175, 128, 229, 222, 228, 136, 218, 31, 66, 122, 133, 24, 154]"
    by (simp add: exampleStates_def bytesOfLane_def)
  finally show ?thesis .
qed

lemma toUpperChar_hex:
  "toUpperChar CHR ''0'' = CHR ''0''"
  "toUpperChar CHR ''1'' = CHR ''1''"
  "toUpperChar CHR ''2'' = CHR ''2''"
  "toUpperChar CHR ''3'' = CHR ''3''"
  "toUpperChar CHR ''4'' = CHR ''4''"
  "toUpperChar CHR ''5'' = CHR ''5''"
  "toUpperChar CHR ''6'' = CHR ''6''"
  "toUpperChar CHR ''7'' = CHR ''7''"
  "toUpperChar CHR ''8'' = CHR ''8''"
  "toUpperChar CHR ''9'' = CHR ''9''"
  "toUpperChar CHR ''a'' = CHR ''A''"
  "toUpperChar CHR ''b'' = CHR ''B''"
  "toUpperChar CHR ''c'' = CHR ''C''"
  "toUpperChar CHR ''d'' = CHR ''D''"
  "toUpperChar CHR ''e'' = CHR ''E''"
  "toUpperChar CHR ''f'' = CHR ''F''"
  by (simp_all add: toUpperChar_def)

text \<open>The checksum of the lower-case address is the address as the README writes
  it.\<close>

lemma getChecksumAddress_example:
  "getChecksumAddress ''0xa8633f571c51ad0ea7b3c51ec930ee51ff8f0551'' =
     ''0xA8633f571c51ad0EA7b3c51EC930Ee51fF8F0551''"
proof -
  have low: "drop 2 (toLowerCase ''0xa8633f571c51ad0ea7b3c51ec930ee51ff8f0551'') =
             ''a8633f571c51ad0ea7b3c51ec930ee51ff8f0551''"
    by (simp add: toLowerCase_def toLowerChar_hex)
  have t: "take 40 ''a8633f571c51ad0ea7b3c51ec930ee51ff8f0551'' =
           ''a8633f571c51ad0ea7b3c51ec930ee51ff8f0551''"
    by simp
  show ?thesis
    unfolding getChecksumAddress_def Let_def low t keccak256_example
    by (simp add: toUpperChar_hex)
qed

lemma toLowerCase_example:
  "toLowerCase ''0xA8633f571c51ad0EA7b3c51EC930Ee51fF8F0551'' =
     ''0xa8633f571c51ad0ea7b3c51ec930ee51ff8f0551''"
  by (simp add: toLowerCase_def toLowerChar_hex toLowerChar_0x)

lemma toLowerCase_lower_example:
  "toLowerCase ''0xa8633f571c51ad0ea7b3c51ec930ee51ff8f0551'' =
     ''0xa8633f571c51ad0ea7b3c51ec930ee51ff8f0551''"
  by (simp add: toLowerCase_def toLowerChar_hex toLowerChar_0x)

lemma getAddress_lower_example:
  "getAddress ''0xa8633f571c51ad0ea7b3c51ec930ee51ff8f0551'' =
     Some ''0xA8633f571c51ad0EA7b3c51EC930Ee51fF8F0551''"
proof -
  have "isHexAddressShape ''0xa8633f571c51ad0ea7b3c51ec930ee51ff8f0551''"
    by (simp add: isHexAddressShape_def startsWith_def isHexDigit_def)
  moreover have "\<not> isMixedCase ''0xa8633f571c51ad0ea7b3c51ec930ee51ff8f0551''"
    by (simp add: isMixedCase_def)
  ultimately show ?thesis
    by (simp add: getAddress_def Let_def startsWith_def getChecksumAddress_example)
qed

lemma canonicalAddress_example:
  "canonicalAddress ''0xA8633f571c51ad0EA7b3c51EC930Ee51fF8F0551''"
proof -
  have "getChecksumAddress ''0xA8633f571c51ad0EA7b3c51EC930Ee51fF8F0551'' =
        getChecksumAddress ''0xa8633f571c51ad0ea7b3c51ec930ee51ff8f0551''"
    by (simp only: getChecksumAddress_def toLowerCase_example toLowerCase_lower_example)
  then have c: "getChecksumAddress ''0xA8633f571c51ad0EA7b3c51EC930Ee51fF8F0551'' =
           ''0xA8633f571c51ad0EA7b3c51EC930Ee51fF8F0551''"
    by (simp only: getChecksumAddress_example)
  have "isHexAddressShape ''0xA8633f571c51ad0EA7b3c51EC930Ee51fF8F0551''"
    by (simp add: isHexAddressShape_def startsWith_def isHexDigit_def)
  then show ?thesis
    by (simp add: canonicalAddress_def getAddress_def Let_def startsWith_def c)
qed

lemma hexToNat_zeros: "hexToNat (replicate k CHR ''0'' @ body) = hexToNat body"
proof -
  have "foldl (\<lambda>acc c. 16 * acc + hexDigitValue c) 0 (replicate k CHR ''0'') = 0"
    by (induction k) (simp_all add: hexDigitValue_hex)
  then show ?thesis by (simp add: hexToNat_def)
qed

text \<open>The word of an address: 24 zeros and the 40 digits in lower case.\<close>

lemma wordHex_address:
  assumes "list_all isHexDigit body" and "length body = 40"
  shows "wordHex (hexToNat body) = replicate 24 CHR ''0'' @ map toLowerChar body"
proof -
  let ?w = "replicate 24 CHR ''0'' @ body"
  have h: "list_all isHexDigit ?w"
    using assms(1) by (auto simp: list_all_iff isHexDigit_def)
  have "natToHex (length ?w) (hexToNat ?w) = map toLowerChar ?w"
    using h by (rule natToHex_hexToNat)
  then show ?thesis
    using assms(2) by (simp add: wordHex_def hexToNat_zeros toLowerChar_hex)
qed

lemma wordHex_example:
  "wordHex (hexToNat ''A8633f571c51ad0EA7b3c51EC930Ee51fF8F0551'') =
     ''000000000000000000000000a8633f571c51ad0ea7b3c51ec930ee51ff8f0551''"
proof -
  have w: "wordHex (hexToNat ''A8633f571c51ad0EA7b3c51EC930Ee51fF8F0551'') =
        replicate 24 CHR ''0'' @ map toLowerChar ''A8633f571c51ad0EA7b3c51EC930Ee51fF8F0551''"
    by (rule wordHex_address) (simp_all add: isHexDigit_def)
  show ?thesis
    unfolding w by (simp add: toLowerChar_hex replicate_numeral)
qed

lemma encode_example:
  "encode NftMint (NFTMintHookData ''0xA8633f571c51ad0EA7b3c51EC930Ee51fF8F0551'') =
     Inr ''0x000000000000000000000000a8633f571c51ad0ea7b3c51ec930ee51ff8f0551''"
  using address_tuple_payload(1) [OF canonicalAddress_example]
  by (simp add: encode_def wordHex_example)

lemma decode_example:
  "decode NftMint ''0x000000000000000000000000a8633f571c51ad0ea7b3c51ec930ee51ff8f0551'' =
     Inr (NFTMintHookData ''0xA8633f571c51ad0EA7b3c51EC930Ee51fF8F0551'')"
  using address_tuple_payload(2) [OF canonicalAddress_example]
  by (simp add: decode_def wordHex_example)

lemma encode_lower_example:
  "encode NftMint (NFTMintHookData ''0xa8633f571c51ad0ea7b3c51ec930ee51ff8f0551'') =
     Inr ''0x000000000000000000000000a8633f571c51ad0ea7b3c51ec930ee51ff8f0551''"
  by (simp add: encode_def abiEncodeAddressTuple_def encodeAddress_def getAddress_lower_example
      wordHex_example)

lemma isUint16_5000: "isUint16 (Finite 5000)"
  by (simp add: isUint16_def isInteger_def integerOf_def)

subsection \<open>The round trip\<close>

text \<open>
  C1. For parameters of any of the three variants whose addresses are in the form that
  \<open>getAddress\<close> returns (checksummed, with the prefix) and whose bips are values of
  \<open>uint16\<close>, \<open>encode\<close> succeeds and \<open>decode\<close> of the payload, at the same kind, gives the
  parameters back, a TransferSplit value with an empty array of splits coming back as
  the one without splits.
\<close>

theorem codec_round_trip:
  assumes "canonicalParams p"
  shows "\<exists>payload. encode (hookTypeOf p) p = Inr payload \<and>
           decode (hookTypeOf p) payload = Inr (withoutEmptySplits p)"
proof (cases p)
  case (NFTMintHookData a)
  with assms have "canonicalAddress a" by (simp add: canonicalParams_def)
  from address_tuple_round_trip [OF this] obtain payload
    where e: "abiEncodeAddressTuple a = Inr payload"
      and d: "decode NftMint payload = Inr (NFTMintHookData a)"
    using decode_NftMint by blast
  have "encode (hookTypeOf p) p = Inr payload"
    using e NFTMintHookData by (simp add: encode_def hookTypeOf_def)
  moreover have "decode (hookTypeOf p) payload = Inr (withoutEmptySplits p)"
    using d NFTMintHookData by (simp add: hookTypeOf_def withoutEmptySplits_def)
  ultimately show ?thesis by blast
next
  case (RewardPointsHookData a)
  with assms have "canonicalAddress a" by (simp add: canonicalParams_def)
  from address_tuple_round_trip [OF this] obtain payload
    where e: "abiEncodeAddressTuple a = Inr payload"
      and d: "decode RewardPoints payload = Inr (RewardPointsHookData a)"
    using decode_RewardPoints by blast
  have "encode (hookTypeOf p) p = Inr payload"
    using e RewardPointsHookData by (simp add: encode_def hookTypeOf_def)
  moreover have "decode (hookTypeOf p) payload = Inr (withoutEmptySplits p)"
    using d RewardPointsHookData by (simp add: hookTypeOf_def withoutEmptySplits_def)
  ultimately show ?thesis by blast
next
  case (TransferSplitHookData splits)
  show ?thesis
  proof (cases splits)
    case None
    have "encode (hookTypeOf p) p = Inr ''0x''"
      using None TransferSplitHookData by (simp add: encode_def hookTypeOf_def)
    moreover have "decode (hookTypeOf p) ''0x'' = Inr (withoutEmptySplits p)"
      using None TransferSplitHookData
      by (simp add: decode_def hookTypeOf_def withoutEmptySplits_def)
    ultimately show ?thesis by blast
  next
    case (Some ss)
    show ?thesis
    proof (cases "ss = []")
      case True
      have "encode (hookTypeOf p) p = Inr ''0x''"
        using True Some TransferSplitHookData by (simp add: encode_def hookTypeOf_def)
      moreover have "decode (hookTypeOf p) ''0x'' = Inr (withoutEmptySplits p)"
        using True Some TransferSplitHookData
        by (simp add: decode_def hookTypeOf_def withoutEmptySplits_def)
      ultimately show ?thesis by blast
    next
      case False
      from assms Some TransferSplitHookData have "list_all canonicalSplit ss" "length ss < 2 ^ 32"
        by (simp_all add: canonicalParams_def)
      from splits_round_trip [OF this False] obtain payload
        where e: "abiEncodeSplits ss = Inr payload"
          and d: "decode TransferSplit payload = Inr (TransferSplitHookData (Some ss))"
        using decode_TransferSplit by blast
      have "encode (hookTypeOf p) p = Inr payload"
        using e False Some TransferSplitHookData by (simp add: encode_def hookTypeOf_def)
      moreover have "withoutEmptySplits p = p"
        using False Some TransferSplitHookData
        by (cases ss) (simp_all add: withoutEmptySplits_def)
      then have "decode (hookTypeOf p) payload = Inr (withoutEmptySplits p)"
        using d Some TransferSplitHookData by (simp add: hookTypeOf_def)
      ultimately show ?thesis by blast
    qed
  qed
qed

theorem codec_round_trip_witness:
  "canonicalParams (NFTMintHookData ''0xA8633f571c51ad0EA7b3c51EC930Ee51fF8F0551'') \<and>
   encode NftMint (NFTMintHookData ''0xA8633f571c51ad0EA7b3c51EC930Ee51fF8F0551'') =
     Inr ''0x000000000000000000000000a8633f571c51ad0ea7b3c51ec930ee51ff8f0551'' \<and>
   decode NftMint ''0x000000000000000000000000a8633f571c51ad0ea7b3c51ec930ee51ff8f0551'' =
     Inr (NFTMintHookData ''0xA8633f571c51ad0EA7b3c51EC930Ee51fF8F0551'') \<and>
   (\<exists>payload.
      encode TransferSplit (TransferSplitHookData (Some
        [\<lparr>recipient = ''0xA8633f571c51ad0EA7b3c51EC930Ee51fF8F0551'', bips = Finite 5000\<rparr>,
         \<lparr>recipient = ''0xA8633f571c51ad0EA7b3c51EC930Ee51fF8F0551'', bips = Finite 5000\<rparr>])) =
        Inr payload \<and>
      decode TransferSplit payload = Inr (TransferSplitHookData (Some
        [\<lparr>recipient = ''0xA8633f571c51ad0EA7b3c51EC930Ee51fF8F0551'', bips = Finite 5000\<rparr>,
         \<lparr>recipient = ''0xA8633f571c51ad0EA7b3c51EC930Ee51fF8F0551'', bips = Finite 5000\<rparr>]))) \<and>
   encode TransferSplit (TransferSplitHookData (Some [])) = Inr ''0x'' \<and>
   decode TransferSplit ''0x'' = Inr (TransferSplitHookData None)"
proof -
  have c1: "canonicalParams (NFTMintHookData ''0xA8633f571c51ad0EA7b3c51EC930Ee51fF8F0551'')"
    by (simp add: canonicalParams_def canonicalAddress_example)
  have c2: "canonicalParams (TransferSplitHookData (Some
        [\<lparr>recipient = ''0xA8633f571c51ad0EA7b3c51EC930Ee51fF8F0551'', bips = Finite 5000\<rparr>,
         \<lparr>recipient = ''0xA8633f571c51ad0EA7b3c51EC930Ee51fF8F0551'', bips = Finite 5000\<rparr>]))"
    by (simp add: canonicalParams_def canonicalSplit_def canonicalAddress_example isUint16_5000)
  have c3: "canonicalParams (TransferSplitHookData (Some []))"
    by (simp add: canonicalParams_def)
  from codec_round_trip [OF c1] encode_example
  have 1: "decode NftMint ''0x000000000000000000000000a8633f571c51ad0ea7b3c51ec930ee51ff8f0551'' =
     Inr (NFTMintHookData ''0xA8633f571c51ad0EA7b3c51EC930Ee51fF8F0551'')"
    by (auto simp: hookTypeOf_def withoutEmptySplits_def)
  from codec_round_trip [OF c2]
  have 2: "\<exists>payload.
      encode TransferSplit (TransferSplitHookData (Some
        [\<lparr>recipient = ''0xA8633f571c51ad0EA7b3c51EC930Ee51fF8F0551'', bips = Finite 5000\<rparr>,
         \<lparr>recipient = ''0xA8633f571c51ad0EA7b3c51EC930Ee51fF8F0551'', bips = Finite 5000\<rparr>])) =
        Inr payload \<and>
      decode TransferSplit payload = Inr (TransferSplitHookData (Some
        [\<lparr>recipient = ''0xA8633f571c51ad0EA7b3c51EC930Ee51fF8F0551'', bips = Finite 5000\<rparr>,
         \<lparr>recipient = ''0xA8633f571c51ad0EA7b3c51EC930Ee51fF8F0551'', bips = Finite 5000\<rparr>]))"
    by (simp add: hookTypeOf_def withoutEmptySplits_def)
  from codec_round_trip [OF c3]
  have 3: "encode TransferSplit (TransferSplitHookData (Some [])) = Inr ''0x'' \<and>
     decode TransferSplit ''0x'' = Inr (TransferSplitHookData None)"
    by (auto simp: hookTypeOf_def withoutEmptySplits_def encode_def)
  from c1 encode_example 1 2 3 show ?thesis by simp
qed

text \<open>The same address written in lower case is well formed and is encoded to the same
  payload; what \<open>decode\<close> returns is the checksummed form, another string.\<close>

theorem codec_round_trip_lower_case:
  "validate (NFTMintHookData ''0xa8633f571c51ad0ea7b3c51ec930ee51ff8f0551'') \<and>
   encode NftMint (NFTMintHookData ''0xa8633f571c51ad0ea7b3c51ec930ee51ff8f0551'') =
     Inr ''0x000000000000000000000000a8633f571c51ad0ea7b3c51ec930ee51ff8f0551'' \<and>
   decode NftMint ''0x000000000000000000000000a8633f571c51ad0ea7b3c51ec930ee51ff8f0551'' =
     Inr (NFTMintHookData ''0xA8633f571c51ad0EA7b3c51EC930Ee51fF8F0551'') \<and>
   NFTMintHookData ''0xA8633f571c51ad0EA7b3c51EC930Ee51fF8F0551'' \<noteq>
     NFTMintHookData ''0xa8633f571c51ad0ea7b3c51ec930ee51ff8f0551''"
  using encode_lower_example decode_example
  by (simp add: validate_def isAddress_def getAddress_lower_example)

end
